theory Spec2Isabelle
  imports Complex_Main
begin

section \<open>Spalart-Allmaras source terms: the data of turb\_sources\_new.hpp\<close>

text \<open>
  The header assembles the source term of the Spalart-Allmaras equation from five
  strategy classes, passed as template parameters to \<open>CSourceBase_TurbSA\<close>. The
  embedding keeps that shape: one datatype per template parameter, one function per
  static \<open>get\<close>, and \<open>ComputeResidual\<close> as a function from the object and the
  local \<open>CommonVariables\<close> to the updated object and the final local.

  \<open>su2double\<close> is read as a real number: \<open>+ - * /\<close> are exact, \<open>min\<close>, \<open>max\<close>,
  \<open>sqrt\<close>, \<open>tanh\<close> and \<open>exp\<close> are the real functions, \<open>pow\<close> with a whole exponent is a
  power. Rounding, overflow, infinities and NaN are outside the model.
\<close>

type_synonym su2double = real

text \<open>
  \<open>struct CommonVariables\<close> (lines 226-235): the constants, the auxiliary functions and
  the helpers. \<open>ComputeResidual\<close> declares it as a local without an initialiser, so
  what it holds at the start of a call is a parameter of the model.
\<close>

record CommonVariables =
  cv1_3 :: su2double
  k2 :: su2double
  cb1 :: su2double
  cw2 :: su2double
  ct3 :: su2double
  ct4 :: su2double
  cw3_6 :: su2double
  cb2_sigma :: su2double
  sigma :: su2double
  cb2 :: su2double
  cw1 :: su2double
  cr1 :: su2double
  ft2 :: su2double
  d_ft2 :: su2double
  r :: su2double
  d_r :: su2double
  g :: su2double
  d_g :: su2double
  glim :: su2double
  fw :: su2double
  d_fw :: su2double
  Ji :: su2double
  d_Ji :: su2double
  S :: su2double
  Shat :: su2double
  d_Shat :: su2double
  fv1 :: su2double
  d_fv1 :: su2double
  fv2 :: su2double
  d_fv2 :: su2double
  Omega :: su2double
  dist_i_2 :: su2double
  inv_k2_d2 :: su2double
  inv_Shat :: su2double
  g_6 :: su2double
  norm2_Grad :: su2double

text \<open>
  \<open>FlowIndices\<close> is a class of another header; only the three positions the code asks
  it for are kept, as parameters.
\<close>

record FlowIndices =
  Density :: nat
  LaminarViscosity :: nat
  Velocity :: nat

text \<open>
  The object: the members \<open>CSourceBase_TurbSA\<close> declares (lines 48-69) and the members
  of its base \<open>CNumerics\<close> that the code reads or writes. Arrays are functions from the
  index. \<open>Jacobian_i\<close> is the one cell \<open>Jacobian_i[0]\<close>. \<open>EPS\<close> is a macro of another
  header and is kept as a parameter. Line 65 declares \<open>rotating_frame\<close> constant and
  false; it is a member here, with both values, so that line 155 is part of the model.
\<close>

record CSourceBase_TurbSA =
  Production :: su2double
  Destruction :: su2double
  CrossProduction :: su2double
  AddSourceTerm :: su2double
  Residual :: su2double
  Jacobian_i :: su2double
  idx :: FlowIndices
  rotating_frame :: bool
  roughwall :: bool
  nDim :: nat
  roughness_i :: su2double
  dist_i :: su2double
  Volume :: su2double
  StrainMag_i :: su2double
  Density_i :: su2double
  Laminar_Viscosity_i :: su2double
  V_i :: "nat \<Rightarrow> su2double"
  ScalarVar_i :: "nat \<Rightarrow> su2double"
  ScalarVar_Grad_i :: "nat \<Rightarrow> nat \<Rightarrow> su2double"
  Vorticity_i :: "nat \<Rightarrow> su2double"
  PrimVar_Grad_i :: "nat \<Rightarrow> nat \<Rightarrow> su2double"
  EPS :: su2double

text \<open>The template parameters of \<open>CSourceBase_TurbSA\<close> (line 39).\<close>

datatype Omega_class = Omega_Bsl | Omega_Edw

datatype ft2_class = ft2_Bsl | ft2_nonzero

datatype ModVort_class = ModVort_Bsl | ModVort_Edw | ModVort_Neg

datatype r_class = r_Bsl | r_Edw

datatype SourceTerms_class = SourceTerms_Bsl | SourceTerms_Neg

record SA_variant =
  Omega_of :: Omega_class
  ft2_of :: ft2_class
  ModVort_of :: ModVort_class
  r_of :: r_class
  SourceTerms_of :: SourceTerms_class


section \<open>The strategies\<close>

subsection \<open>Strain rate (lines 244-281)\<close>

definition Omega_Bsl_get :: "CSourceBase_TurbSA \<Rightarrow> CommonVariables \<Rightarrow> CommonVariables" where
  "Omega_Bsl_get this model_var =
     model_var\<lparr>Omega := sqrt (Vorticity_i this 0 * Vorticity_i this 0
                              + Vorticity_i this 1 * Vorticity_i this 1
                              + Vorticity_i this 2 * Vorticity_i this 2)\<rparr>"

text \<open>The two loops of \<open>Omega_Edw::get\<close> over \<open>iDim\<close> and \<open>jDim\<close>, as folds over \<open>[0..<nDim]\<close>.\<close>

definition Omega_Edw_Sbar :: "CSourceBase_TurbSA \<Rightarrow> su2double" where
  "Omega_Edw_Sbar this =
     (let v = Velocity (idx this);
          G = PrimVar_Grad_i this;
          Sbar1 = fold (\<lambda>iDim acc.
                     fold (\<lambda>jDim acc'.
                        acc' + (G (v + iDim) jDim + G (v + jDim) iDim) * G (v + iDim) jDim)
                       [0..<nDim this] acc)
                    [0..<nDim this] 0
      in fold (\<lambda>iDim acc. acc - (2 / 3) * (G (v + iDim) iDim) ^ 2) [0..<nDim this] Sbar1)"

definition Omega_Edw_get :: "CSourceBase_TurbSA \<Rightarrow> CommonVariables \<Rightarrow> CommonVariables" where
  "Omega_Edw_get this model_var = model_var\<lparr>Omega := sqrt (max (Omega_Edw_Sbar this) 0)\<rparr>"

fun Omega_get :: "Omega_class \<Rightarrow> CSourceBase_TurbSA \<Rightarrow> CommonVariables \<Rightarrow> CommonVariables" where
  "Omega_get Omega_Bsl = Omega_Bsl_get"
| "Omega_get Omega_Edw = Omega_Edw_get"

text \<open>The rotational correction of \<open>ComputeResidual\<close> (lines 154-156).\<close>

definition rotational_correction :: "CSourceBase_TurbSA \<Rightarrow> CommonVariables \<Rightarrow> CommonVariables" where
  "rotational_correction this model_var =
     (if rotating_frame this
      then model_var\<lparr>Omega := Omega model_var + 2 * min 0 (StrainMag_i this - Omega model_var)\<rparr>
      else model_var)"

subsection \<open>The ft2 term (lines 291-309)\<close>

definition ft2_Bsl_get :: "CommonVariables \<Rightarrow> CommonVariables" where
  "ft2_Bsl_get model_var = model_var\<lparr>ft2 := 0, d_ft2 := 0\<rparr>"

definition ft2_nonzero_get :: "CommonVariables \<Rightarrow> CommonVariables" where
  "ft2_nonzero_get model_var =
     (let xsi2 = (Ji model_var) ^ 2;
          m1 = model_var\<lparr>ft2 := ct3 model_var * exp (- ct4 model_var * xsi2)\<rparr>
      in m1\<lparr>d_ft2 := - 2 * ct4 m1 * Ji m1 * ft2 m1 * d_Ji m1\<rparr>)"

fun ft2_get :: "ft2_class \<Rightarrow> CommonVariables \<Rightarrow> CommonVariables" where
  "ft2_get ft2_Bsl = ft2_Bsl_get"
| "ft2_get ft2_nonzero = ft2_nonzero_get"

subsection \<open>Modified vorticity (lines 320-374)\<close>

definition ModVort_Bsl_get :: "CSourceBase_TurbSA \<Rightarrow> CommonVariables \<Rightarrow> CommonVariables" where
  "ModVort_Bsl_get this model_var =
     (let nue = ScalarVar_i this 0;
          Sbar = nue * fv2 model_var * inv_k2_d2 model_var;
          m1 = model_var\<lparr>Shat := S model_var + Sbar\<rparr>;
          m2 = m1\<lparr>Shat := max (Shat m1) (1 / 10 ^ 10)\<rparr>;
          d_Sbar = (fv2 m2 + nue * d_fv2 m2) * inv_k2_d2 m2
      in m2\<lparr>d_Shat := (if Shat m2 \<le> 1 / 10 ^ 10 then 0 else d_Sbar)\<rparr>)"

text \<open>
  \<open>ModVort_Edw::get\<close> names \<open>nu\<close>, the local of \<open>ComputeResidual\<close> (line 164), which its
  comment lists among the required values; it is a parameter here.
\<close>

definition ModVort_Edw_get :: "su2double \<Rightarrow> CommonVariables \<Rightarrow> CommonVariables" where
  "ModVort_Edw_get nu model_var =
     (let m1 = model_var\<lparr>Shat := max (S model_var * ((1 / max (Ji model_var) (1 / 10 ^ 16))
                                                   + fv1 model_var)) (1 / 10 ^ 16)\<rparr>;
          m2 = m1\<lparr>Shat := max (Shat m1) (1 / 10 ^ 10)\<rparr>
      in m2\<lparr>d_Shat := (if Shat m2 \<le> 1 / 10 ^ 10 then 0
                        else - S m2 * (Ji m2 powi (- 2)) / nu + S m2 * d_fv1 m2)\<rparr>)"

definition ModVort_Neg_get :: "CSourceBase_TurbSA \<Rightarrow> CommonVariables \<Rightarrow> CommonVariables" where
  "ModVort_Neg_get this model_var =
     (let nue = ScalarVar_i this 0
      in if nue > 0 then ModVort_Bsl_get this model_var else model_var)"

fun ModVort_get ::
  "ModVort_class \<Rightarrow> CSourceBase_TurbSA \<Rightarrow> su2double \<Rightarrow> CommonVariables \<Rightarrow> CommonVariables" where
  "ModVort_get ModVort_Bsl this nu = ModVort_Bsl_get this"
| "ModVort_get ModVort_Edw this nu = ModVort_Edw_get nu"
| "ModVort_get ModVort_Neg this nu = ModVort_Neg_get this"

subsection \<open>Auxiliary function r (lines 385-414)\<close>

definition r_Bsl_get :: "CSourceBase_TurbSA \<Rightarrow> CommonVariables \<Rightarrow> CommonVariables" where
  "r_Bsl_get this model_var =
     (let nue = ScalarVar_i this 0;
          m1 = model_var\<lparr>r := min (nue * inv_Shat model_var * inv_k2_d2 model_var) 10\<rparr>;
          m2 = m1\<lparr>d_r := (Shat m1 - nue * d_Shat m1) * inv_Shat m1 * inv_Shat m1 * inv_k2_d2 m1\<rparr>
      in if r m2 = 10 then m2\<lparr>d_r := 0\<rparr> else m2)"

definition r_Edw_get :: "CSourceBase_TurbSA \<Rightarrow> CommonVariables \<Rightarrow> CommonVariables" where
  "r_Edw_get this model_var =
     (let nue = ScalarVar_i this 0;
          m1 = model_var\<lparr>r := min (nue * inv_Shat model_var * inv_k2_d2 model_var) 10\<rparr>;
          m2 = m1\<lparr>r := tanh (r m1) / tanh 1\<rparr>;
          m3 = m2\<lparr>d_r := (Shat m2 - nue * d_Shat m2) * inv_Shat m2 * inv_Shat m2 * inv_k2_d2 m2\<rparr>
      in m3\<lparr>d_r := (1 - (tanh (r m3)) ^ 2) * (d_r m3) / tanh 1\<rparr>)"

fun r_get :: "r_class \<Rightarrow> CSourceBase_TurbSA \<Rightarrow> CommonVariables \<Rightarrow> CommonVariables" where
  "r_get r_Bsl = r_Bsl_get"
| "r_get r_Edw = r_Edw_get"

subsection \<open>Production, destruction and cross production (lines 423-493)\<close>

text \<open>
  The \<open>Compute...\<close> functions write through the pointers they are given. Each takes the
  pair (its term, the Jacobian) as it stands and returns it updated.
\<close>

definition SourceTerms_Bsl_ComputeProduction ::
  "su2double \<Rightarrow> CommonVariables \<Rightarrow> su2double \<times> su2double \<Rightarrow> su2double \<times> su2double" where
  "SourceTerms_Bsl_ComputeProduction nue model_var = (\<lambda>(Production', Jacobian).
     (cb1 model_var * (1 - ft2 model_var) * Shat model_var * nue,
      Jacobian + cb1 model_var * (- Shat model_var * nue * d_ft2 model_var
                   + (1 - ft2 model_var) * (nue * d_Shat model_var + Shat model_var))))"

definition SourceTerms_Bsl_ComputeDestruction ::
  "su2double \<Rightarrow> CommonVariables \<Rightarrow> su2double \<times> su2double \<Rightarrow> su2double \<times> su2double" where
  "SourceTerms_Bsl_ComputeDestruction nue model_var = (\<lambda>(Destruction', Jacobian).
     ((cw1 model_var * fw model_var - cb1 model_var * ft2 model_var / k2 model_var)
         * nue * nue / dist_i_2 model_var,
      Jacobian - ((cw1 model_var * d_fw model_var - cb1 model_var / k2 model_var * d_ft2 model_var)
                     * nue * nue / dist_i_2 model_var
                  + (cw1 model_var * fw model_var - cb1 model_var * ft2 model_var / k2 model_var)
                     * 2 * nue / dist_i_2 model_var)))"

definition SourceTerms_Bsl_ComputeCrossProduction ::
  "su2double \<Rightarrow> CommonVariables \<Rightarrow> su2double \<times> su2double \<Rightarrow> su2double \<times> su2double" where
  "SourceTerms_Bsl_ComputeCrossProduction nue model_var = (\<lambda>(CrossProduction', Jacobian).
     (cb2_sigma model_var * norm2_Grad model_var, Jacobian))"

text \<open>
  \<open>get\<close> takes the four cells (Production, Destruction, CrossProduction, Jacobian) and
  runs the three steps in the order of the source.
\<close>

type_synonym source_cells = "su2double \<times> su2double \<times> su2double \<times> su2double"

definition SourceTerms_Bsl_get ::
  "CSourceBase_TurbSA \<Rightarrow> CommonVariables \<Rightarrow> source_cells \<Rightarrow> source_cells" where
  "SourceTerms_Bsl_get this model_var = (\<lambda>(P0, D0, C0, J0).
     (let nue = ScalarVar_i this 0;
          (P1, J1) = SourceTerms_Bsl_ComputeProduction nue model_var (P0, J0);
          (D1, J2) = SourceTerms_Bsl_ComputeDestruction nue model_var (D0, J1);
          (C1, J3) = SourceTerms_Bsl_ComputeCrossProduction nue model_var (C0, J2)
      in (P1, D1, C1, J3)))"

definition SourceTerms_Neg_ComputeProduction ::
  "su2double \<Rightarrow> CommonVariables \<Rightarrow> su2double \<times> su2double \<Rightarrow> su2double \<times> su2double" where
  "SourceTerms_Neg_ComputeProduction nue model_var = (\<lambda>(Production', Jacobian).
     (cb1 model_var * (1 - ct3 model_var) * S model_var * nue,
      Jacobian + cb1 model_var * (1 - ct3 model_var) * S model_var))"

definition SourceTerms_Neg_ComputeDestruction ::
  "su2double \<Rightarrow> CommonVariables \<Rightarrow> su2double \<times> su2double \<Rightarrow> su2double \<times> su2double" where
  "SourceTerms_Neg_ComputeDestruction nue model_var = (\<lambda>(Destruction', Jacobian).
     (cw1 model_var * nue * nue / dist_i_2 model_var,
      Jacobian - 2 * cw1 model_var * nue / dist_i_2 model_var))"

definition SourceTerms_Neg_ComputeCrossProduction ::
  "su2double \<Rightarrow> CommonVariables \<Rightarrow> su2double \<times> su2double \<Rightarrow> su2double \<times> su2double" where
  "SourceTerms_Neg_ComputeCrossProduction nue model_var =
     SourceTerms_Bsl_ComputeCrossProduction nue model_var"

definition SourceTerms_Neg_get ::
  "CSourceBase_TurbSA \<Rightarrow> CommonVariables \<Rightarrow> source_cells \<Rightarrow> source_cells" where
  "SourceTerms_Neg_get this model_var = (\<lambda>(P0, D0, C0, J0).
     (let nue = ScalarVar_i this 0
      in if nue > 0 then SourceTerms_Bsl_get this model_var (P0, D0, C0, J0)
         else (let (P1, J1) = SourceTerms_Neg_ComputeProduction nue model_var (P0, J0);
                   (D1, J2) = SourceTerms_Neg_ComputeDestruction nue model_var (D0, J1);
                   (C1, J3) = SourceTerms_Neg_ComputeCrossProduction nue model_var (C0, J2)
               in (P1, D1, C1, J3))))"

fun SourceTerms_get ::
  "SourceTerms_class \<Rightarrow> CSourceBase_TurbSA \<Rightarrow> CommonVariables \<Rightarrow> source_cells \<Rightarrow> source_cells" where
  "SourceTerms_get SourceTerms_Bsl = SourceTerms_Bsl_get"
| "SourceTerms_get SourceTerms_Neg = SourceTerms_Neg_get"

section \<open>The orchestrator: ComputeResidual (lines 131-220)\<close>

text \<open>Lines 137-147: the members set before any strategy runs.\<close>

definition ComputeResidual_reset :: "CSourceBase_TurbSA \<Rightarrow> CSourceBase_TurbSA" where
  "ComputeResidual_reset this =
     this\<lparr>roughwall := (roughness_i this > 0),
          Density_i := V_i this (Density (idx this)),
          Laminar_Viscosity_i := V_i this (LaminarViscosity (idx this)),
          Residual := 0,
          Production := 0,
          Destruction := 0,
          CrossProduction := 0,
          AddSourceTerm := 0,
          Jacobian_i := 0\<rparr>"

text \<open>Line 164: the local \<open>nu\<close>.\<close>

definition nu_of :: "CSourceBase_TurbSA \<Rightarrow> su2double" where
  "nu_of this = Laminar_Viscosity_i this / Density_i this"

text \<open>Lines 161-183: S, the distance helpers, Ji and the functions fv1 and fv2.\<close>

definition ComputeResidual_fv :: "CSourceBase_TurbSA \<Rightarrow> CommonVariables \<Rightarrow> CommonVariables" where
  "ComputeResidual_fv this model_var =
     (let m1 = model_var\<lparr>S := Omega model_var\<rparr>;
          m2 = m1\<lparr>dist_i_2 := dist_i this * dist_i this\<rparr>;
          nu = nu_of this;
          m3 = m2\<lparr>inv_k2_d2 := 1 / (k2 m2 * dist_i_2 m2)\<rparr>;
          m4 = m3\<lparr>Ji := ScalarVar_i this 0 / nu
                         + cr1 m3 * (roughness_i this / (dist_i this + EPS this))\<rparr>;
          m5 = m4\<lparr>d_Ji := 1 / nu\<rparr>;
          Ji_2 = Ji m5 * Ji m5;
          Ji_3 = Ji_2 * Ji m5;
          m6 = m5\<lparr>fv1 := Ji_3 / (Ji_3 + cv1_3 m5)\<rparr>;
          m7 = m6\<lparr>d_fv1 := 3 * Ji_2 * cv1_3 m6 / (nu * (Ji_3 + cv1_3 m6) ^ 2)\<rparr>;
          m8 = m7\<lparr>fv2 := 1 - ScalarVar_i this 0 / (nu + ScalarVar_i this 0 * fv1 m7)\<rparr>
      in m8\<lparr>d_fv2 := - (1 / nu - Ji_2 * d_fv1 m8) / (1 + Ji m8 * fv1 m8) ^ 2\<rparr>)"

text \<open>
  Lines 196-202: g, glim, fw and their derivatives. Line 202 assigns \<open>model_var.dfw\<close>;
  the struct declares \<open>d_fw\<close>, which \<open>SourceTerms_Bsl\<close> reads, and that is the member
  written here.
\<close>

definition ComputeResidual_fw :: "CommonVariables \<Rightarrow> CommonVariables" where
  "ComputeResidual_fw model_var =
     (let m1 = model_var\<lparr>g := r model_var + cw2 model_var * ((r model_var) ^ 6 - r model_var)\<rparr>;
          m2 = m1\<lparr>g_6 := (g m1) ^ 6\<rparr>;
          m3 = m2\<lparr>glim := ((1 + cw3_6 m2) / (g_6 m2 + cw3_6 m2)) powr (1 / 6)\<rparr>;
          m4 = m3\<lparr>fw := g m3 * glim m3\<rparr>;
          m5 = m4\<lparr>d_g := d_r m4 * (1 + cw2 m4 * (6 * (r m4) ^ 5 - 1))\<rparr>
      in m5\<lparr>d_fw := d_g m5 * glim m5 * (1 - g_6 m5 / (g_6 m5 + cw3_6 m5))\<rparr>)"

text \<open>Lines 204-206: the squared norm of the gradient, one addition per dimension.\<close>

definition ComputeResidual_norm2 :: "CSourceBase_TurbSA \<Rightarrow> CommonVariables \<Rightarrow> CommonVariables" where
  "ComputeResidual_norm2 this model_var =
     fold (\<lambda>iDim m. m\<lparr>norm2_Grad := norm2_Grad m
                          + ScalarVar_Grad_i this 0 iDim * ScalarVar_Grad_i this 0 iDim\<rparr>)
          [0..<nDim this] (model_var\<lparr>norm2_Grad := 0\<rparr>)"

text \<open>Lines 161-206: everything between the guard and the source terms.\<close>

definition ComputeResidual_aux ::
  "SA_variant \<Rightarrow> CSourceBase_TurbSA \<Rightarrow> CommonVariables \<Rightarrow> CommonVariables" where
  "ComputeResidual_aux v this model_var =
     (let m1 = ComputeResidual_fv this model_var;
          m2 = ft2_get (ft2_of v) m1;
          m3 = ModVort_get (ModVort_of v) this (nu_of this) m2;
          m4 = m3\<lparr>inv_Shat := 1 / Shat m3\<rparr>;
          m5 = r_get (r_of v) this m4;
          m6 = ComputeResidual_fw m5
      in ComputeResidual_norm2 this m6)"

text \<open>Lines 209-218: the source terms, the residual and the Jacobian, scaled by the volume.\<close>

definition ComputeResidual_sources ::
  "SA_variant \<Rightarrow> CSourceBase_TurbSA \<Rightarrow> CommonVariables \<Rightarrow> CSourceBase_TurbSA" where
  "ComputeResidual_sources v this model_var =
     (let (P, D, C, J) = SourceTerms_get (SourceTerms_of v) this model_var
                           (Production this, Destruction this, CrossProduction this, Jacobian_i this);
          t1 = this\<lparr>Production := P, Destruction := D, CrossProduction := C, Jacobian_i := J\<rparr>;
          t2 = t1\<lparr>Residual := Production t1 - Destruction t1 + CrossProduction t1 + AddSourceTerm t1\<rparr>;
          t3 = t2\<lparr>Residual := Residual t2 * Volume t2\<rparr>
      in t3\<lparr>Jacobian_i := Jacobian_i t3 * Volume t3\<rparr>)"

text \<open>
  The whole call. The argument pair is the object and the local \<open>model_var\<close> as declared
  on line 134; the result pair is the object after the call and the local as the call
  leaves it. The body ends on line 220 without a return statement; what the caller is
  meant to see, by the comment of line 129, are the members \<open>Residual\<close> and \<open>Jacobian_i\<close>.
\<close>

definition ComputeResidual ::
  "SA_variant \<Rightarrow> CSourceBase_TurbSA \<times> CommonVariables \<Rightarrow> CSourceBase_TurbSA \<times> CommonVariables" where
  "ComputeResidual v = (\<lambda>(this0, model_var).
     (let this = ComputeResidual_reset this0;
          m1 = Omega_get (Omega_of v) this model_var;
          m2 = rotational_correction this m1
      in if dist_i this > 1 / 10 ^ 10
         then (let m3 = ComputeResidual_aux v this m2
               in (ComputeResidual_sources v this m3, m3))
         else (this, m2)))"

section \<open>Reads and writes of the auxiliary fields\<close>

text \<open>
  The auxiliary functions and helpers of \<open>CommonVariables\<close> (the constants are never
  assigned and are left out), and the accesses a statement makes to them: for an
  assignment the fields its right-hand side names, then the field it assigns; for
  \<open>+=\<close> the assigned field is read as well.
\<close>

datatype aux_field =
    F_Omega | F_S | F_Ji | F_d_Ji | F_fv1 | F_d_fv1 | F_fv2 | F_d_fv2 | F_ft2 | F_d_ft2
  | F_Shat | F_d_Shat | F_r | F_d_r | F_g | F_d_g | F_glim | F_fw | F_d_fw
  | F_dist_i_2 | F_inv_k2_d2 | F_inv_Shat | F_g_6 | F_norm2_Grad

datatype access = Read aux_field | Write aux_field


text \<open>Lines 250 and 279: both strain-rate classes assign Omega and read no field.\<close>

definition Omega_trace :: "Omega_class \<Rightarrow> access list" where
  "Omega_trace c = [Write F_Omega]"

text \<open>Line 155, \<open>Omega += 2.0 * min(0.0, StrainMag_i - Omega)\<close>, when the flag is set.\<close>

definition rotational_trace :: "CSourceBase_TurbSA \<Rightarrow> access list" where
  "rotational_trace this =
     (if rotating_frame this then [Read F_Omega, Read F_Omega, Write F_Omega] else [])"

text \<open>Lines 161-183, statement by statement.\<close>

definition fv_trace :: "access list" where
  "fv_trace =
     [Read F_Omega, Write F_S] @
     [Write F_dist_i_2] @
     [Read F_dist_i_2, Write F_inv_k2_d2] @
     [Write F_Ji] @
     [Write F_d_Ji] @
     [Read F_Ji, Read F_Ji] @
     [Read F_Ji] @
     [Write F_fv1] @
     [Write F_d_fv1] @
     [Read F_fv1, Write F_fv2] @
     [Read F_d_fv1, Read F_Ji, Read F_fv1, Write F_d_fv2]"

fun ft2_trace :: "ft2_class \<Rightarrow> access list" where
  "ft2_trace ft2_Bsl = [Write F_ft2, Write F_d_ft2]"
| "ft2_trace ft2_nonzero =
     [Read F_Ji] @ [Write F_ft2] @ [Read F_Ji, Read F_ft2, Read F_d_Ji, Write F_d_ft2]"










text \<open>Lines 204-206: the assignment of 0, then one \<open>+=\<close> per dimension.\<close>

definition norm2_trace :: "CSourceBase_TurbSA \<Rightarrow> access list" where
  "norm2_trace this =
     Write F_norm2_Grad # concat (map (\<lambda>iDim. [Read F_norm2_Grad, Write F_norm2_Grad]) [0..<nDim this])"

text \<open>Lines 436-449 and 479-492: production, destruction, cross production.\<close>

definition SourceTerms_Bsl_trace :: "access list" where
  "SourceTerms_Bsl_trace =
     [Read F_ft2, Read F_Shat] @
     [Read F_Shat, Read F_d_ft2, Read F_ft2, Read F_d_Shat, Read F_Shat] @
     [Read F_fw, Read F_ft2, Read F_dist_i_2] @
     [Read F_d_fw, Read F_d_ft2, Read F_dist_i_2, Read F_fw, Read F_ft2, Read F_dist_i_2] @
     [Read F_norm2_Grad]"

definition SourceTerms_Neg_trace :: "CSourceBase_TurbSA \<Rightarrow> access list" where
  "SourceTerms_Neg_trace this =
     (if ScalarVar_i this 0 > 0 then SourceTerms_Bsl_trace
      else [Read F_S] @ [Read F_S] @ [Read F_dist_i_2] @ [Read F_dist_i_2] @ [Read F_norm2_Grad])"

fun SourceTerms_trace :: "SourceTerms_class \<Rightarrow> CSourceBase_TurbSA \<Rightarrow> access list" where
  "SourceTerms_trace SourceTerms_Bsl this = SourceTerms_Bsl_trace"
| "SourceTerms_trace SourceTerms_Neg this = SourceTerms_Neg_trace this"



text \<open>
  A trace is in order when every read of a field comes after a write of it; \<open>K\<close> holds
  the fields written so far.
\<close>

fun written_before_read :: "aux_field set \<Rightarrow> access list \<Rightarrow> bool" where
  "written_before_read K [] = True"
| "written_before_read K (Write f # t) = written_before_read (insert f K) t"
| "written_before_read K (Read f # t) = (f \<in> K \<and> written_before_read K t)"

fun writes :: "access list \<Rightarrow> aux_field list" where
  "writes [] = []"
| "writes (Write f # t) = f # writes t"
| "writes (Read f # t) = writes t"






text \<open>
  \<open>clear_except K\<close> keeps the auxiliary fields in \<open>K\<close> and puts 0 in the others; the constants
  stay. A step whose reads are written before they are read cannot tell a local from
  its clear_except.
\<close>

definition clear_except :: "aux_field set \<Rightarrow> CommonVariables \<Rightarrow> CommonVariables" where
  "clear_except K m = m\<lparr>
      ft2 := (if F_ft2 \<in> K then ft2 m else 0),
      d_ft2 := (if F_d_ft2 \<in> K then d_ft2 m else 0),
      r := (if F_r \<in> K then r m else 0),
      d_r := (if F_d_r \<in> K then d_r m else 0),
      g := (if F_g \<in> K then g m else 0),
      d_g := (if F_d_g \<in> K then d_g m else 0),
      glim := (if F_glim \<in> K then glim m else 0),
      fw := (if F_fw \<in> K then fw m else 0),
      d_fw := (if F_d_fw \<in> K then d_fw m else 0),
      Ji := (if F_Ji \<in> K then Ji m else 0),
      d_Ji := (if F_d_Ji \<in> K then d_Ji m else 0),
      S := (if F_S \<in> K then S m else 0),
      Shat := (if F_Shat \<in> K then Shat m else 0),
      d_Shat := (if F_d_Shat \<in> K then d_Shat m else 0),
      fv1 := (if F_fv1 \<in> K then fv1 m else 0),
      d_fv1 := (if F_d_fv1 \<in> K then d_fv1 m else 0),
      fv2 := (if F_fv2 \<in> K then fv2 m else 0),
      d_fv2 := (if F_d_fv2 \<in> K then d_fv2 m else 0),
      Omega := (if F_Omega \<in> K then Omega m else 0),
      dist_i_2 := (if F_dist_i_2 \<in> K then dist_i_2 m else 0),
      inv_k2_d2 := (if F_inv_k2_d2 \<in> K then inv_k2_d2 m else 0),
      inv_Shat := (if F_inv_Shat \<in> K then inv_Shat m else 0),
      g_6 := (if F_g_6 \<in> K then g_6 m else 0),
      norm2_Grad := (if F_norm2_Grad \<in> K then norm2_Grad m else 0)\<rparr>"

text \<open>
  The fields that can carry a trace of Shat or d\_Shat: the two themselves and what
  lines 191-202 compute from them.
\<close>

definition Shat_dependent :: "aux_field set" where
  "Shat_dependent =
     {F_Shat, F_d_Shat, F_inv_Shat, F_r, F_d_r, F_g, F_g_6, F_glim, F_fw, F_d_g, F_d_fw}"


section \<open>The Edwards r as the specification words it\<close>

text \<open>
  "Compute r, dr as Baseline, then transform r := tanh(r)/tanh(1);
  dr := (1 - tanh(r)^2) dr\_baseline / tanh(1)", the factor taken at the transformed r.
\<close>

definition r_Edw_spec :: "CSourceBase_TurbSA \<Rightarrow> CommonVariables \<Rightarrow> CommonVariables" where
  "r_Edw_spec this model_var =
     (let b = r_Bsl_get this model_var;
          r_new = tanh (r b) / tanh 1
      in b\<lparr>r := r_new, d_r := (1 - (tanh r_new) ^ 2) * d_r b / tanh 1\<rparr>)"


section \<open>Concrete point states\<close>

text \<open>
  A smooth-wall point in two dimensions with vorticity \<open>(0, 0, 5)\<close>, density 1, laminar
  viscosity 1/2 and turbulence scalar 1, the usual constants of the model, and a local
  whose auxiliary fields all hold 0 on entry. The members that \<open>ComputeResidual\<close>
  overwrites start at 7, so that a 0 in a result has been written by the call.
\<close>

definition example_this :: CSourceBase_TurbSA where
  "example_this =
     \<lparr>Production = 7, Destruction = 7, CrossProduction = 7, AddSourceTerm = 7,
      Residual = 7, Jacobian_i = 7,
      idx = \<lparr>Density = 0, LaminarViscosity = 1, Velocity = 2\<rparr>,
      rotating_frame = False, roughwall = False, nDim = 2,
      roughness_i = 0, dist_i = 1, Volume = 2, StrainMag_i = 0,
      Density_i = 0, Laminar_Viscosity_i = 0,
      V_i = (\<lambda>k. if k = 0 then 1 else 1 / 2),
      ScalarVar_i = (\<lambda>k. 1),
      ScalarVar_Grad_i = (\<lambda>k iDim. 1),
      Vorticity_i = (\<lambda>k. if k = 2 then 5 else 0),
      PrimVar_Grad_i = (\<lambda>k iDim. 0),
      EPS = 0\<rparr>"

definition example_model_var :: CommonVariables where
  "example_model_var =
     \<lparr>cv1_3 = 357911 / 1000, k2 = 1681 / 10000, cb1 = 1355 / 10000, cw2 = 3 / 10,
      ct3 = 12 / 10, ct4 = 1 / 2, cw3_6 = 64, cb2_sigma = 933 / 1000, sigma = 2 / 3,
      cb2 = 622 / 1000, cw1 = 3239 / 1000, cr1 = 1 / 2,
      ft2 = 0, d_ft2 = 0, r = 0, d_r = 0, g = 0, d_g = 0, glim = 0, fw = 0, d_fw = 0,
      Ji = 0, d_Ji = 0, S = 0, Shat = 0, d_Shat = 0, fv1 = 0, d_fv1 = 0, fv2 = 0,
      d_fv2 = 0, Omega = 0, dist_i_2 = 0, inv_k2_d2 = 0, inv_Shat = 0, g_6 = 0,
      norm2_Grad = 0\<rparr>"

definition variant_Bsl :: SA_variant where
  "variant_Bsl = \<lparr>Omega_of = Omega_Bsl, ft2_of = ft2_Bsl, ModVort_of = ModVort_Bsl,
                   r_of = r_Bsl, SourceTerms_of = SourceTerms_Bsl\<rparr>"

definition variant_Neg :: SA_variant where
  "variant_Neg = \<lparr>Omega_of = Omega_Bsl, ft2_of = ft2_Bsl, ModVort_of = ModVort_Neg,
                   r_of = r_Bsl, SourceTerms_of = SourceTerms_Neg\<rparr>"


section \<open>How the steps depend on the cell volume\<close>

lemma reset_Volume:
  "ComputeResidual_reset (this\<lparr>Volume := x\<rparr>) = (ComputeResidual_reset this)\<lparr>Volume := x\<rparr>"
  by (simp add: ComputeResidual_reset_def)

lemma nu_of_Volume: "nu_of (this\<lparr>Volume := x\<rparr>) = nu_of this"
  by (simp add: nu_of_def)

lemma fv_Volume: "ComputeResidual_fv (this\<lparr>Volume := x\<rparr>) = ComputeResidual_fv this"
  by (rule ext) (simp add: ComputeResidual_fv_def nu_of_Volume)

lemma norm2_Volume: "ComputeResidual_norm2 (this\<lparr>Volume := x\<rparr>) = ComputeResidual_norm2 this"
  by (rule ext) (simp add: ComputeResidual_norm2_def)

lemma ModVort_Volume: "ModVort_get c (this\<lparr>Volume := x\<rparr>) = ModVort_get c this"
  by (cases c) (simp_all add: fun_eq_iff ModVort_Bsl_get_def ModVort_Neg_get_def)

lemma r_Volume: "r_get c (this\<lparr>Volume := x\<rparr>) = r_get c this"
  by (cases c) (simp_all add: fun_eq_iff r_Bsl_get_def r_Edw_get_def)

lemma Omega_Volume: "Omega_get c (this\<lparr>Volume := x\<rparr>) = Omega_get c this"
  by (cases c) (simp_all add: fun_eq_iff Omega_Bsl_get_def Omega_Edw_get_def Omega_Edw_Sbar_def)

lemma rot_Volume: "rotational_correction (this\<lparr>Volume := x\<rparr>) = rotational_correction this"
  by (simp add: fun_eq_iff rotational_correction_def)

lemma aux_Volume: "ComputeResidual_aux v (this\<lparr>Volume := x\<rparr>) = ComputeResidual_aux v this"
  by (rule ext)
     (simp only: ComputeResidual_aux_def fv_Volume norm2_Volume ModVort_Volume r_Volume nu_of_Volume)

lemma SourceTerms_Bsl_Volume:
  "SourceTerms_Bsl_get (this\<lparr>Volume := x\<rparr>) = SourceTerms_Bsl_get this"
  by (simp add: fun_eq_iff SourceTerms_Bsl_get_def)

lemma SourceTerms_Neg_Volume:
  "SourceTerms_Neg_get (this\<lparr>Volume := x\<rparr>) = SourceTerms_Neg_get this"
  by (simp add: fun_eq_iff SourceTerms_Neg_get_def SourceTerms_Bsl_Volume Let_def)

lemma SourceTerms_Volume: "SourceTerms_get c (this\<lparr>Volume := x\<rparr>) = SourceTerms_get c this"
  by (cases c) (simp_all add: SourceTerms_Bsl_Volume SourceTerms_Neg_Volume)

lemma sources_Residual:
  "Residual (ComputeResidual_sources v this m) =
     (Production (ComputeResidual_sources v this m) - Destruction (ComputeResidual_sources v this m)
      + CrossProduction (ComputeResidual_sources v this m)
      + AddSourceTerm (ComputeResidual_sources v this m)) * Volume this"
  by (simp add: ComputeResidual_sources_def Let_def split: prod.splits)

lemma sources_Volume:
  "Residual (ComputeResidual_sources v (this\<lparr>Volume := x\<rparr>) m)
     = x * Residual (ComputeResidual_sources v (this\<lparr>Volume := 1\<rparr>) m)
   \<and> Jacobian_i (ComputeResidual_sources v (this\<lparr>Volume := x\<rparr>) m)
     = x * Jacobian_i (ComputeResidual_sources v (this\<lparr>Volume := 1\<rparr>) m)"
  by (simp add: ComputeResidual_sources_def SourceTerms_Volume Let_def split: prod.splits)

lemma ComputeResidual_Volume_unit:
  "Residual (fst (ComputeResidual v (this\<lparr>Volume := x\<rparr>, m)))
     = x * Residual (fst (ComputeResidual v (this\<lparr>Volume := 1\<rparr>, m)))
   \<and> Jacobian_i (fst (ComputeResidual v (this\<lparr>Volume := x\<rparr>, m)))
     = x * Jacobian_i (fst (ComputeResidual v (this\<lparr>Volume := 1\<rparr>, m)))"
proof (cases "dist_i this > 1 / 10 ^ 10")
  case True
  then have d: "\<And>y. dist_i ((ComputeResidual_reset this)\<lparr>Volume := y\<rparr>) > 1 / 10 ^ 10"
    by (simp add: ComputeResidual_reset_def)
  show ?thesis
    unfolding ComputeResidual_def
    apply (simp only: prod.case Let_def reset_Volume Omega_Volume rot_Volume aux_Volume d
                      if_True fst_conv)
    apply (rule sources_Volume)
    done
next
  case False
  then have d: "\<And>y. \<not> dist_i ((ComputeResidual_reset this)\<lparr>Volume := y\<rparr>) > 1 / 10 ^ 10"
    by (simp add: ComputeResidual_reset_def)
  show ?thesis
    unfolding ComputeResidual_def
    apply (simp only: prod.case Let_def reset_Volume Omega_Volume rot_Volume aux_Volume d
                      if_False fst_conv)
    apply (simp add: ComputeResidual_reset_def)
    done
qed

lemma ComputeResidual_Residual:
  "Residual (fst (ComputeResidual v (this, m))) =
     (Production (fst (ComputeResidual v (this, m))) - Destruction (fst (ComputeResidual v (this, m)))
      + CrossProduction (fst (ComputeResidual v (this, m)))
      + AddSourceTerm (fst (ComputeResidual v (this, m)))) * Volume this"
proof (cases "dist_i this > 1 / 10 ^ 10")
  case True
  then have d: "dist_i (ComputeResidual_reset this) > 1 / 10 ^ 10"
    by (simp add: ComputeResidual_reset_def)
  have vol: "Volume (ComputeResidual_reset this) = Volume this"
    by (simp add: ComputeResidual_reset_def)
  show ?thesis
    unfolding ComputeResidual_def
    apply (simp only: prod.case Let_def d if_True fst_conv)
    apply (subst sources_Residual)
    apply (simp only: vol)
    done
next
  case False
  then show ?thesis
    by (simp add: ComputeResidual_def ComputeResidual_reset_def Let_def)
qed


section \<open>Traces and cleared locals, step by step\<close>




lemma fv_clear_except: "written_before_read K fv_trace \<Longrightarrow>
   ComputeResidual_fv this (clear_except K m) = clear_except (K \<union> set (writes fv_trace)) (ComputeResidual_fv this m)"
  by (simp add: fv_trace_def ComputeResidual_fv_def Let_def clear_except_def split del: if_split cong: if_cong)

lemma Omega_clear_except: "Omega_get c this (clear_except K m) = clear_except (K \<union> set (writes (Omega_trace c))) (Omega_get c this m)"
  by (cases c) (simp_all add: Omega_trace_def Omega_Bsl_get_def Omega_Edw_get_def clear_except_def split del: if_split cong: if_cong)

lemma rot_clear_except: "written_before_read K (rotational_trace this) \<Longrightarrow>
   rotational_correction this (clear_except K m) = clear_except (K \<union> set (writes (rotational_trace this))) (rotational_correction this m)"
  by (cases "rotating_frame this")
     (simp_all add: rotational_trace_def rotational_correction_def clear_except_def insert_absorb split del: if_split cong: if_cong)

lemma ft2_clear_except: "written_before_read K (ft2_trace c) \<Longrightarrow>
   ft2_get c (clear_except K m) = clear_except (K \<union> set (writes (ft2_trace c))) (ft2_get c m)"
  by (cases c) (simp_all add: ft2_Bsl_get_def ft2_nonzero_get_def Let_def clear_except_def split del: if_split cong: if_cong)








lemma norm2_fold_clear_except:
  "F_norm2_Grad \<in> K \<Longrightarrow>
   fold (\<lambda>iDim m. m\<lparr>norm2_Grad := norm2_Grad m + c iDim\<rparr>) xs (clear_except K m)
     = clear_except K (fold (\<lambda>iDim m. m\<lparr>norm2_Grad := norm2_Grad m + c iDim\<rparr>) xs m)"
proof (induction xs arbitrary: m)
  case Nil
  show ?case by simp
next
  case (Cons x xs)
  have "(clear_except K m)\<lparr>norm2_Grad := norm2_Grad (clear_except K m) + c x\<rparr> = clear_except K (m\<lparr>norm2_Grad := norm2_Grad m + c x\<rparr>)"
    using Cons.prems by (simp add: clear_except_def split del: if_split cong: if_cong)
  then show ?case using Cons by simp
qed

lemma writes_norm2_loop:
  "set (writes (concat (map (\<lambda>iDim. [Read F_norm2_Grad, Write F_norm2_Grad]) xs))) \<subseteq> {F_norm2_Grad}"
  by (induction xs) simp_all

lemma writes_norm2: "set (writes (norm2_trace this)) = {F_norm2_Grad}"
  using writes_norm2_loop [of "[0..<nDim this]"] by (auto simp add: norm2_trace_def)



lemma norm2_clear_except:
  "ComputeResidual_norm2 this (clear_except K m) = clear_except (K \<union> set (writes (norm2_trace this))) (ComputeResidual_norm2 this m)"
proof -
  have "(clear_except K m)\<lparr>norm2_Grad := 0\<rparr> = clear_except (insert F_norm2_Grad K) (m\<lparr>norm2_Grad := 0\<rparr>)"
    by (simp add: clear_except_def split del: if_split cong: if_cong)
  then show ?thesis
    by (simp add: ComputeResidual_norm2_def writes_norm2 norm2_fold_clear_except)
qed

lemma SourceTerms_Bsl_clear_except: "written_before_read K SourceTerms_Bsl_trace \<Longrightarrow>
   SourceTerms_Bsl_get this (clear_except K m) = SourceTerms_Bsl_get this m"
  by (simp add: fun_eq_iff SourceTerms_Bsl_trace_def SourceTerms_Bsl_get_def SourceTerms_Bsl_ComputeProduction_def
      SourceTerms_Bsl_ComputeDestruction_def SourceTerms_Bsl_ComputeCrossProduction_def Let_def clear_except_def split del: if_split cong: if_cong)

lemma SourceTerms_Neg_clear_except:
  assumes "written_before_read K (SourceTerms_Neg_trace this)"
  shows "SourceTerms_Neg_get this (clear_except K m) = SourceTerms_Neg_get this m"
proof (cases "ScalarVar_i this 0 > 0")
  case True
  with assms have "written_before_read K SourceTerms_Bsl_trace"
    by (simp add: SourceTerms_Neg_trace_def)
  with True show ?thesis
    by (simp add: fun_eq_iff SourceTerms_Neg_get_def SourceTerms_Bsl_clear_except)
next
  case False
  with assms show ?thesis
    by (simp add: fun_eq_iff SourceTerms_Neg_trace_def SourceTerms_Neg_get_def
      SourceTerms_Neg_ComputeProduction_def SourceTerms_Neg_ComputeDestruction_def
      SourceTerms_Neg_ComputeCrossProduction_def SourceTerms_Bsl_ComputeCrossProduction_def
      Let_def clear_except_def split del: if_split cong: if_cong)
qed

lemma SourceTerms_clear_except: "written_before_read K (SourceTerms_trace c this) \<Longrightarrow>
   SourceTerms_get c this (clear_except K m) = SourceTerms_get c this m"
  by (cases c) (simp_all add: SourceTerms_Bsl_clear_except SourceTerms_Neg_clear_except)







section \<open>What each trace writes and what it needs\<close>

lemma writes_Omega: "set (writes (Omega_trace c)) = {F_Omega}"
  by (simp add: Omega_trace_def)

lemma writes_rot: "set (writes (rotational_trace this)) \<subseteq> {F_Omega}"
  by (simp add: rotational_trace_def)

lemma wbr_rot: "F_Omega \<in> K \<Longrightarrow> written_before_read K (rotational_trace this)"
  by (simp add: rotational_trace_def)

lemma writes_fv:
  "set (writes fv_trace) = {F_S, F_dist_i_2, F_inv_k2_d2, F_Ji, F_d_Ji, F_fv1, F_d_fv1, F_fv2, F_d_fv2}"
  by (auto simp add: fv_trace_def)

lemma wbr_fv: "F_Omega \<in> K \<Longrightarrow> written_before_read K fv_trace"
  by (simp add: fv_trace_def)

lemma writes_ft2: "set (writes (ft2_trace c)) = {F_ft2, F_d_ft2}"
  by (cases c) auto

lemma wbr_ft2: "F_Ji \<in> K \<Longrightarrow> F_d_Ji \<in> K \<Longrightarrow> written_before_read K (ft2_trace c)"
  by (cases c) simp_all














section \<open>The trace of a whole call\<close>

lemma reset_keeps:
  "ScalarVar_i (ComputeResidual_reset this) = ScalarVar_i this"
  "dist_i (ComputeResidual_reset this) = dist_i this"
  "rotating_frame (ComputeResidual_reset this) = rotating_frame this"
  "Volume (ComputeResidual_reset this) = Volume this"
  by (simp_all add: ComputeResidual_reset_def)








lemma sources_clear_except:
  "written_before_read K (SourceTerms_trace (SourceTerms_of v) this) \<Longrightarrow>
   ComputeResidual_sources v this (clear_except K m) = ComputeResidual_sources v this m"
  by (simp add: ComputeResidual_sources_def SourceTerms_clear_except)



section \<open>The fields computed from Shat\<close>

text \<open>
  Lines 191-202 write only fields of \<open>Shat_dependent\<close>; every other step, given a local
  cleared on \<open>Shat_dependent\<close>, produces the cleared result.
\<close>

lemma clear_except_idem: "clear_except K (clear_except K m) = clear_except K m"
  by (simp add: clear_except_def split del: if_split cong: if_cong)

lemma inv_Shat_frame: "clear_except (- Shat_dependent) (m\<lparr>inv_Shat := a\<rparr>) = clear_except (- Shat_dependent) m"
  by (simp add: clear_except_def Shat_dependent_def)

lemma r_frame: "clear_except (- Shat_dependent) (r_get c this m) = clear_except (- Shat_dependent) m"
  by (cases c) (simp_all add: r_Bsl_get_def r_Edw_get_def Let_def clear_except_def Shat_dependent_def)

lemma fw_frame: "clear_except (- Shat_dependent) (ComputeResidual_fw m) = clear_except (- Shat_dependent) m"
  by (simp add: ComputeResidual_fw_def Let_def clear_except_def Shat_dependent_def)

lemma Shat_frame: "clear_except (- Shat_dependent) (m\<lparr>Shat := a, d_Shat := b\<rparr>) = clear_except (- Shat_dependent) m"
  by (simp add: clear_except_def Shat_dependent_def)

lemma Omega_clean: "Omega_get c this (clear_except (- Shat_dependent) m) = clear_except (- Shat_dependent) (Omega_get c this m)"
  by (simp add: Omega_clear_except writes_Omega Shat_dependent_def insert_absorb)

lemma rot_clean:
  "rotational_correction this (clear_except (- Shat_dependent) m) = clear_except (- Shat_dependent) (rotational_correction this m)"
proof -
  have "written_before_read (- Shat_dependent) (rotational_trace this)"
    by (rule wbr_rot) (simp add: Shat_dependent_def)
  moreover have "- Shat_dependent \<union> set (writes (rotational_trace this)) = - Shat_dependent"
    using writes_rot [of this] by (auto simp add: Shat_dependent_def)
  ultimately show ?thesis
    using rot_clear_except [of "- Shat_dependent" this m] by simp
qed

lemma fv_clean:
  "ComputeResidual_fv this (clear_except (- Shat_dependent) m) = clear_except (- Shat_dependent) (ComputeResidual_fv this m)"
proof -
  have "written_before_read (- Shat_dependent) fv_trace"
    by (rule wbr_fv) (simp add: Shat_dependent_def)
  moreover have "- Shat_dependent \<union> set (writes fv_trace) = - Shat_dependent"
    by (auto simp add: writes_fv Shat_dependent_def)
  ultimately show ?thesis
    using fv_clear_except [of "- Shat_dependent" this m] by simp
qed

lemma ft2_clean:
  "ft2_get c (clear_except (- Shat_dependent) m) = clear_except (- Shat_dependent) (ft2_get c m)"
proof -
  have "written_before_read (- Shat_dependent) (ft2_trace c)"
    by (rule wbr_ft2) (simp_all add: Shat_dependent_def)
  moreover have "- Shat_dependent \<union> set (writes (ft2_trace c)) = - Shat_dependent"
    by (auto simp add: writes_ft2 Shat_dependent_def)
  ultimately show ?thesis
    using ft2_clear_except [of "- Shat_dependent" c m] by simp
qed

lemma norm2_clean:
  "ComputeResidual_norm2 this (clear_except (- Shat_dependent) m) = clear_except (- Shat_dependent) (ComputeResidual_norm2 this m)"
proof -
  have "- Shat_dependent \<union> set (writes (norm2_trace this)) = - Shat_dependent"
    by (auto simp add: writes_norm2 Shat_dependent_def)
  then show ?thesis
    using norm2_clear_except [of this "- Shat_dependent" m] by simp
qed

lemma SourceTerms_Neg_clean:
  assumes "\<not> 0 < ScalarVar_i this 0"
  shows "SourceTerms_Neg_get this (clear_except (- Shat_dependent) m) = SourceTerms_Neg_get this m"
proof -
  have "written_before_read (- Shat_dependent) (SourceTerms_Neg_trace this)"
    using assms by (simp add: SourceTerms_Neg_trace_def Shat_dependent_def)
  then show ?thesis by (rule SourceTerms_Neg_clear_except)
qed

lemma aux_Neg_clean:
  assumes "ModVort_of v = ModVort_Neg" and "\<not> 0 < ScalarVar_i this 0"
  shows "clear_except (- Shat_dependent) (ComputeResidual_aux v this m)
           = ComputeResidual_norm2 this (ft2_get (ft2_of v) (ComputeResidual_fv this (clear_except (- Shat_dependent) m)))"
proof -
  have mv: "ModVort_get (ModVort_of v) this nu x = x" for nu x
    using assms by (simp add: ModVort_Neg_get_def)
  show ?thesis
    by (simp only: ComputeResidual_aux_def Let_def mv norm2_clean [symmetric] fw_frame r_frame
        inv_Shat_frame ft2_clean fv_clean)
qed

lemma ComputeResidual_Neg_clean:
  assumes "ModVort_of v = ModVort_Neg" and "SourceTerms_of v = SourceTerms_Neg"
      and "\<not> 0 < ScalarVar_i this 0"
  shows "fst (ComputeResidual v (this, m)) = fst (ComputeResidual v (this, clear_except (- Shat_dependent) m))"
proof -
  define t where "t = ComputeResidual_reset this"
  have n: "\<not> 0 < ScalarVar_i t 0"
    using assms(3) by (simp add: t_def reset_keeps)
  have src: "ComputeResidual_sources v t x = ComputeResidual_sources v t (clear_except (- Shat_dependent) x)" for x
    using SourceTerms_Neg_clean [OF n] by (simp add: ComputeResidual_sources_def assms(2))
  have aux: "clear_except (- Shat_dependent) (ComputeResidual_aux v t (rotational_correction t (Omega_get (Omega_of v) t m)))
      = clear_except (- Shat_dependent) (ComputeResidual_aux v t
           (rotational_correction t (Omega_get (Omega_of v) t (clear_except (- Shat_dependent) m))))"
    by (simp only: aux_Neg_clean [OF assms(1) n] rot_clean Omega_clean clear_except_idem)
  show ?thesis
  proof (cases "dist_i t > 1 / 10 ^ 10")
    case True
    define A where "A = (\<lambda>x. ComputeResidual_aux v t (rotational_correction t (Omega_get (Omega_of v) t x)))"
    have call: "fst (ComputeResidual v (this, x)) = ComputeResidual_sources v t (A x)" for x
      using True by (simp add: ComputeResidual_def Let_def t_def [symmetric] A_def)
    have "ComputeResidual_sources v t (A m) = ComputeResidual_sources v t (clear_except (- Shat_dependent) (A m))"
      by (rule src)
    also have "\<dots> = ComputeResidual_sources v t (clear_except (- Shat_dependent) (A (clear_except (- Shat_dependent) m)))"
      using aux by (simp only: A_def)
    also have "\<dots> = ComputeResidual_sources v t (A (clear_except (- Shat_dependent) m))"
      by (rule src [symmetric])
    finally show ?thesis
      by (simp only: call)
  next
    case False
    then show ?thesis
      by (simp add: ComputeResidual_def Let_def t_def [symmetric])
  qed
qed


section \<open>Omega after the strain-rate step, and evaluation\<close>

lemma Omega_norm2: "Omega (ComputeResidual_norm2 this m) = Omega m"
proof -
  have "Omega (fold (\<lambda>iDim m. m\<lparr>norm2_Grad := norm2_Grad m + c iDim\<rparr>) xs x) = Omega x"
    for c :: "nat \<Rightarrow> su2double" and xs and x :: CommonVariables
    by (induction xs arbitrary: x) simp_all
  then show ?thesis by (simp add: ComputeResidual_norm2_def)
qed

lemma Omega_fw: "Omega (ComputeResidual_fw m) = Omega m"
  by (simp add: ComputeResidual_fw_def Let_def)

lemma Omega_r: "Omega (r_get c this m) = Omega m"
  by (cases c) (simp_all add: r_Bsl_get_def r_Edw_get_def Let_def)

lemma Omega_ModVort: "Omega (ModVort_get c this nu m) = Omega m"
  by (cases c) (simp_all add: ModVort_Bsl_get_def ModVort_Edw_get_def ModVort_Neg_get_def Let_def)

lemma Omega_ft2: "Omega (ft2_get c m) = Omega m"
  by (cases c) (simp_all add: ft2_Bsl_get_def ft2_nonzero_get_def Let_def)

lemma Omega_fv: "Omega (ComputeResidual_fv this m) = Omega m"
  by (simp add: ComputeResidual_fv_def Let_def)

lemma Omega_aux: "Omega (ComputeResidual_aux v this m) = Omega m"
  by (simp add: ComputeResidual_aux_def Let_def Omega_norm2 Omega_fw Omega_r Omega_ModVort Omega_ft2 Omega_fv)

lemma Omega_final:
  "Omega (snd (ComputeResidual v (this, m)))
     = Omega (rotational_correction (ComputeResidual_reset this)
                (Omega_get (Omega_of v) (ComputeResidual_reset this) m))"
  by (simp add: ComputeResidual_def Let_def Omega_aux)

lemma Omega_get_nonneg: "0 \<le> Omega (Omega_get c this m)"
  by (cases c) (simp_all add: Omega_Bsl_get_def Omega_Edw_get_def)

lemma Omega_negative_example:
  "Omega (snd (ComputeResidual v
      (example_this\<lparr>rotating_frame := True, PrimVar_Grad_i := (\<lambda>k iDim. 1)\<rparr>, example_model_var))) < 0"
proof (cases "Omega_of v")
  case Omega_Bsl
  then show ?thesis
    by (simp add: Omega_final ComputeResidual_reset_def rotational_correction_def Omega_Bsl_get_def
        example_this_def)
next
  case Omega_Edw
  then show ?thesis
    by (simp add: Omega_final ComputeResidual_reset_def rotational_correction_def Omega_Edw_get_def
        Omega_Edw_Sbar_def example_this_def upt_rec Let_def)
qed

lemma tanh_sq_less_1: "(tanh (x::real)) ^ 2 < 1"
  using tanh_real_lt_1 [of x] tanh_real_gt_neg1 [of x]
  by (simp add: abs_square_less_1 abs_if)

lemmas strategy_defs =
  Omega_Bsl_get_def Omega_Edw_get_def Omega_Edw_Sbar_def rotational_correction_def
  ft2_Bsl_get_def ft2_nonzero_get_def ModVort_Bsl_get_def ModVort_Edw_get_def ModVort_Neg_get_def
  r_Bsl_get_def r_Edw_get_def
  SourceTerms_Bsl_ComputeProduction_def SourceTerms_Bsl_ComputeDestruction_def
  SourceTerms_Bsl_ComputeCrossProduction_def SourceTerms_Bsl_get_def
  SourceTerms_Neg_ComputeProduction_def SourceTerms_Neg_ComputeDestruction_def
  SourceTerms_Neg_ComputeCrossProduction_def SourceTerms_Neg_get_def

lemmas call_defs =
  ComputeResidual_def ComputeResidual_reset_def ComputeResidual_aux_def ComputeResidual_fv_def
  ComputeResidual_fw_def ComputeResidual_norm2_def ComputeResidual_sources_def nu_of_def

lemmas example_defs = variant_Neg_def variant_Bsl_def example_this_def example_model_var_def


section \<open>What the source terms see after lines 161-206\<close>

text \<open>
  No step assigns a constant; S and dist\_i\_2 keep what lines 161 and 163 gave them, and
  the loop of lines 204-206 leaves the sum of the squares of the gradient components.
\<close>

lemma fv_keeps:
  "cb1 (ComputeResidual_fv this m) = cb1 m" "ct3 (ComputeResidual_fv this m) = ct3 m"
  "cw1 (ComputeResidual_fv this m) = cw1 m" "cb2_sigma (ComputeResidual_fv this m) = cb2_sigma m"
  "S (ComputeResidual_fv this m) = Omega m"
  "dist_i_2 (ComputeResidual_fv this m) = dist_i this * dist_i this"
  by (simp_all add: ComputeResidual_fv_def Let_def)

lemma ft2_keeps:
  "cb1 (ft2_get c m) = cb1 m" "ct3 (ft2_get c m) = ct3 m"
  "cw1 (ft2_get c m) = cw1 m" "cb2_sigma (ft2_get c m) = cb2_sigma m"
  "S (ft2_get c m) = S m" "dist_i_2 (ft2_get c m) = dist_i_2 m"
  by (cases c; simp add: ft2_Bsl_get_def ft2_nonzero_get_def Let_def)+

lemma ModVort_keeps:
  "cb1 (ModVort_get c this nu m) = cb1 m" "ct3 (ModVort_get c this nu m) = ct3 m"
  "cw1 (ModVort_get c this nu m) = cw1 m" "cb2_sigma (ModVort_get c this nu m) = cb2_sigma m"
  "S (ModVort_get c this nu m) = S m" "dist_i_2 (ModVort_get c this nu m) = dist_i_2 m"
  by (cases c; simp add: ModVort_Bsl_get_def ModVort_Edw_get_def ModVort_Neg_get_def Let_def)+

lemma r_keeps:
  "cb1 (r_get c this m) = cb1 m" "ct3 (r_get c this m) = ct3 m"
  "cw1 (r_get c this m) = cw1 m" "cb2_sigma (r_get c this m) = cb2_sigma m"
  "S (r_get c this m) = S m" "dist_i_2 (r_get c this m) = dist_i_2 m"
  by (cases c; simp add: r_Bsl_get_def r_Edw_get_def Let_def)+

lemma fw_keeps:
  "cb1 (ComputeResidual_fw m) = cb1 m" "ct3 (ComputeResidual_fw m) = ct3 m"
  "cw1 (ComputeResidual_fw m) = cw1 m" "cb2_sigma (ComputeResidual_fw m) = cb2_sigma m"
  "S (ComputeResidual_fw m) = S m" "dist_i_2 (ComputeResidual_fw m) = dist_i_2 m"
  by (simp_all add: ComputeResidual_fw_def Let_def)

lemma norm2_loop_value:
  fixes c :: "nat \<Rightarrow> su2double" and x :: CommonVariables
  shows "fold (\<lambda>iDim m. m\<lparr>norm2_Grad := norm2_Grad m + c iDim\<rparr>) xs x
           = x\<lparr>norm2_Grad := norm2_Grad x + sum_list (map c xs)\<rparr>"
  by (induction xs arbitrary: x) (simp_all add: add.assoc)

lemma norm2_value:
  "ComputeResidual_norm2 this m =
     m\<lparr>norm2_Grad := (\<Sum>iDim\<leftarrow>[0..<nDim this]. ScalarVar_Grad_i this 0 iDim * ScalarVar_Grad_i this 0 iDim)\<rparr>"
  by (simp add: ComputeResidual_norm2_def norm2_loop_value)

lemma aux_keeps:
  "cb1 (ComputeResidual_aux v this m) = cb1 m" "ct3 (ComputeResidual_aux v this m) = ct3 m"
  "cw1 (ComputeResidual_aux v this m) = cw1 m" "cb2_sigma (ComputeResidual_aux v this m) = cb2_sigma m"
  "S (ComputeResidual_aux v this m) = Omega m"
  "dist_i_2 (ComputeResidual_aux v this m) = dist_i this * dist_i this"
  "norm2_Grad (ComputeResidual_aux v this m)
     = (\<Sum>iDim\<leftarrow>[0..<nDim this]. ScalarVar_Grad_i this 0 iDim * ScalarVar_Grad_i this 0 iDim)"
  by (simp_all add: ComputeResidual_aux_def Let_def norm2_value fw_keeps r_keeps ModVort_keeps
      ft2_keeps fv_keeps)

lemma head_keeps:
  "cb1 (rotational_correction this (Omega_get c this m)) = cb1 m"
  "ct3 (rotational_correction this (Omega_get c this m)) = ct3 m"
  "cw1 (rotational_correction this (Omega_get c this m)) = cw1 m"
  "cb2_sigma (rotational_correction this (Omega_get c this m)) = cb2_sigma m"
  by (cases c; simp add: rotational_correction_def Omega_Bsl_get_def Omega_Edw_get_def)+

lemma reset_cells:
  "Production (ComputeResidual_reset this) = 0" "Destruction (ComputeResidual_reset this) = 0"
  "CrossProduction (ComputeResidual_reset this) = 0" "Jacobian_i (ComputeResidual_reset this) = 0"
  "AddSourceTerm (ComputeResidual_reset this) = 0"
  "nDim (ComputeResidual_reset this) = nDim this"
  "ScalarVar_Grad_i (ComputeResidual_reset this) = ScalarVar_Grad_i this"
  by (simp_all add: ComputeResidual_reset_def)

lemma CrossProduction_value:
  "CrossProduction (fst (ComputeResidual v (this, m)))
     = (if dist_i this > 1 / 10 ^ 10
        then cb2_sigma m * (\<Sum>iDim\<leftarrow>[0..<nDim this]. ScalarVar_Grad_i this 0 iDim * ScalarVar_Grad_i this 0 iDim)
        else 0)"
proof -
  have c: "fst (snd (snd (SourceTerms_get c t x cells))) = cb2_sigma x * norm2_Grad x" for c t x cells
    by (cases c; cases cells)
       (simp_all add: SourceTerms_Bsl_ComputeCrossProduction_def
        SourceTerms_Neg_ComputeCrossProduction_def SourceTerms_Bsl_get_def
        SourceTerms_Neg_get_def Let_def split: prod.splits)
  have s: "CrossProduction (ComputeResidual_sources v t x) = cb2_sigma x * norm2_Grad x" for t x
    using c [of "SourceTerms_of v" t x "(Production t, Destruction t, CrossProduction t, Jacobian_i t)"]
    by (auto simp add: ComputeResidual_sources_def Let_def split: prod.splits)
  show ?thesis
    by (simp add: ComputeResidual_def Let_def s aux_keeps head_keeps reset_cells reset_keeps)
qed

lemma Neg_call_value:
  assumes "SourceTerms_of v = SourceTerms_Neg" and "ScalarVar_i this 0 < 0" and "dist_i this > 1 / 10 ^ 10"
  shows "Production (fst (ComputeResidual v (this, m)))
           = cb1 m * (1 - ct3 m) * S (snd (ComputeResidual v (this, m))) * ScalarVar_i this 0"
    and "Destruction (fst (ComputeResidual v (this, m)))
           = cw1 m * (ScalarVar_i this 0) ^ 2 / (dist_i this * dist_i this)"
proof -
  define t where "t = ComputeResidual_reset this"
  define M where "M = rotational_correction t (Omega_get (Omega_of v) t m)"
  have n: "\<not> 0 < ScalarVar_i t 0" and d: "dist_i t > 1 / 10 ^ 10" and sv: "ScalarVar_i t 0 = ScalarVar_i this 0"
    and dd: "dist_i t = dist_i this"
    using assms by (simp_all add: t_def reset_keeps)
  have call: "ComputeResidual v (this, m) = (ComputeResidual_sources v t (ComputeResidual_aux v t M), ComputeResidual_aux v t M)"
    using d by (simp add: ComputeResidual_def Let_def t_def [symmetric] M_def)
  have src: "SourceTerms_get (SourceTerms_of v) t x (P0, D0, C0, J0)
        = (cb1 x * (1 - ct3 x) * S x * ScalarVar_i t 0,
           cw1 x * (ScalarVar_i t 0) ^ 2 / dist_i_2 x,
           cb2_sigma x * norm2_Grad x,
           J0 + cb1 x * (1 - ct3 x) * S x - 2 * cw1 x * ScalarVar_i t 0 / dist_i_2 x)" for x P0 D0 C0 J0
    using n by (simp add: assms(1) SourceTerms_Neg_get_def SourceTerms_Neg_ComputeProduction_def
      SourceTerms_Neg_ComputeDestruction_def SourceTerms_Neg_ComputeCrossProduction_def
      SourceTerms_Bsl_ComputeCrossProduction_def Let_def power2_eq_square)
  show "Production (fst (ComputeResidual v (this, m)))
           = cb1 m * (1 - ct3 m) * S (snd (ComputeResidual v (this, m))) * ScalarVar_i this 0"
    by (simp add: call ComputeResidual_sources_def src aux_keeps Omega_aux M_def head_keeps sv)
  show "Destruction (fst (ComputeResidual v (this, m)))
           = cw1 m * (ScalarVar_i this 0) ^ 2 / (dist_i this * dist_i this)"
    by (simp add: call ComputeResidual_sources_def src aux_keeps M_def head_keeps sv dd)
qed


section \<open>How often each field is written, and the cells of a call\<close>























lemma sources_cells:
  "case SourceTerms_get (SourceTerms_of v) t x
          (Production t, Destruction t, CrossProduction t, Jacobian_i t) of
     (P, D, C, J) \<Rightarrow>
       Production (ComputeResidual_sources v t x) = P
     \<and> Destruction (ComputeResidual_sources v t x) = D
     \<and> CrossProduction (ComputeResidual_sources v t x) = C
     \<and> AddSourceTerm (ComputeResidual_sources v t x) = AddSourceTerm t
     \<and> Residual (ComputeResidual_sources v t x) = (P - D + C + AddSourceTerm t) * Volume t
     \<and> Jacobian_i (ComputeResidual_sources v t x) = J * Volume t"
  by (simp add: ComputeResidual_sources_def Let_def split: prod.splits)

lemma call_cells:
  assumes "dist_i this > 1 / 10 ^ 10"
  shows "case SourceTerms_get (SourceTerms_of v) (ComputeResidual_reset this)
               (snd (ComputeResidual v (this, m))) (0, 0, 0, 0) of
     (P, D, C, J) \<Rightarrow>
       Production (fst (ComputeResidual v (this, m))) = P
     \<and> Destruction (fst (ComputeResidual v (this, m))) = D
     \<and> CrossProduction (fst (ComputeResidual v (this, m))) = C
     \<and> AddSourceTerm (fst (ComputeResidual v (this, m))) = 0
     \<and> Residual (fst (ComputeResidual v (this, m))) = (P - D + C + 0) * Volume this
     \<and> Jacobian_i (fst (ComputeResidual v (this, m))) = J * Volume this"
proof -
  define t where "t = ComputeResidual_reset this"
  define x where "x = ComputeResidual_aux v t (rotational_correction t (Omega_get (Omega_of v) t m))"
  have d: "dist_i t > 1 / 10 ^ 10"
    using assms by (simp add: t_def reset_keeps)
  have call: "ComputeResidual v (this, m) = (ComputeResidual_sources v t x, x)"
    using d by (simp add: ComputeResidual_def Let_def t_def [symmetric] x_def)
  have z: "Production t = 0" "Destruction t = 0" "CrossProduction t = 0" "Jacobian_i t = 0"
    "AddSourceTerm t = 0" "Volume t = Volume this"
    by (simp_all add: t_def reset_cells reset_keeps)
  show ?thesis
    using sources_cells [of v t x]
    by (simp only: call fst_conv snd_conv z t_def [symmetric])
qed


section \<open>The claims\<close>

text \<open>
  C1. When the wall distance is at most 1e-10 the guard of line 158 skips the whole
  body: the call returns Residual 0 and Jacobian 0, and Production, Destruction and
  CrossProduction stay at the 0 they were reset to, whatever the variant, the other
  inputs and the content of the local.
\<close>

theorem C1_wall_guard_returns_zero:
  assumes "dist_i this \<le> 1 / 10 ^ 10"
  shows "Residual (fst (ComputeResidual v (this, model_var))) = 0
       \<and> Jacobian_i (fst (ComputeResidual v (this, model_var))) = 0
       \<and> Production (fst (ComputeResidual v (this, model_var))) = 0
       \<and> Destruction (fst (ComputeResidual v (this, model_var))) = 0
       \<and> CrossProduction (fst (ComputeResidual v (this, model_var))) = 0"
  using assms by (simp add: ComputeResidual_def ComputeResidual_reset_def Let_def)

theorem C1_wall_guard_witness:
  "dist_i (example_this\<lparr>dist_i := 0\<rparr>) \<le> 1 / 10 ^ 10
   \<and> Residual (fst (ComputeResidual variant_Bsl (example_this\<lparr>dist_i := 0\<rparr>, example_model_var))) = 0
   \<and> Jacobian_i (fst (ComputeResidual variant_Bsl (example_this\<lparr>dist_i := 0\<rparr>, example_model_var))) = 0"
  using C1_wall_guard_returns_zero [of "example_this\<lparr>dist_i := 0\<rparr>" variant_Bsl example_model_var]
  by simp

text \<open>
  C2 (as the code has it). \<open>r_Edw::get\<close> sets r to tanh(min(nue inv\_Shat inv\_k2\_d2, 10)) /
  tanh(1) and d\_r to (1 - tanh(r)^2) times (Shat - nue d\_Shat) inv\_Shat^2 inv\_k2\_d2
  over tanh(1), the factor taken at the r already transformed, and changes no other
  field. It has no counterpart of line 393: d\_r is not set to 0 when the min cuts at 10.
  So it is the Baseline r and d\_r transformed if and only if the Baseline r is not 10
  or the product (Shat - nue d\_Shat) inv\_Shat^2 inv\_k2\_d2 is 0.
\<close>

theorem C2_r_Edw_transform:
  "r_Edw_get this model_var =
     model_var\<lparr>r := tanh (min (ScalarVar_i this 0 * inv_Shat model_var * inv_k2_d2 model_var) 10) / tanh 1,
               d_r := (1 - (tanh (tanh (min (ScalarVar_i this 0 * inv_Shat model_var * inv_k2_d2 model_var) 10) / tanh 1)) ^ 2)
                      * ((Shat model_var - ScalarVar_i this 0 * d_Shat model_var)
                           * inv_Shat model_var * inv_Shat model_var * inv_k2_d2 model_var)
                      / tanh 1\<rparr>
   \<and> (r (r_Bsl_get this model_var) \<noteq> 10 \<longrightarrow> r_Edw_get this model_var = r_Edw_spec this model_var)
   \<and> (r_Edw_get this model_var = r_Edw_spec this model_var
        \<longleftrightarrow> r (r_Bsl_get this model_var) \<noteq> 10
            \<or> (Shat model_var - ScalarVar_i this 0 * d_Shat model_var)
                  * inv_Shat model_var * inv_Shat model_var * inv_k2_d2 model_var = 0)"
proof -
  define R where "R = min (ScalarVar_i this 0 * inv_Shat model_var * inv_k2_d2 model_var) 10"
  define D where "D = (Shat model_var - ScalarVar_i this 0 * d_Shat model_var)
                        * inv_Shat model_var * inv_Shat model_var * inv_k2_d2 model_var"
  define F where "F = 1 - (tanh (tanh R / tanh 1)) ^ 2"
  have Fpos: "0 < F"
    using tanh_sq_less_1 [of "tanh R / tanh 1"] by (simp add: F_def)
  have Tpos: "0 < tanh (1::real)"
    by simp
  have edw: "r_Edw_get this model_var = model_var\<lparr>r := tanh R / tanh 1, d_r := F * D / tanh 1\<rparr>"
    by (simp add: r_Edw_get_def Let_def R_def D_def F_def)
  have bsl: "r_Bsl_get this model_var = (if R = 10 then model_var\<lparr>r := R, d_r := 0\<rparr>
                                         else model_var\<lparr>r := R, d_r := D\<rparr>)"
    unfolding R_def D_def by (simp add: r_Bsl_get_def Let_def)
  have r_bsl: "r (r_Bsl_get this model_var) = R"
    by (simp add: bsl)
  have spec: "r_Edw_spec this model_var
      = model_var\<lparr>r := tanh R / tanh 1, d_r := F * (if R = 10 then 0 else D) / tanh 1\<rparr>"
    by (simp add: r_Edw_spec_def Let_def bsl F_def)
  have zero: "F * D / tanh 1 = 0 \<longleftrightarrow> D = 0"
    using Fpos Tpos by simp
  have eq: "r_Edw_get this model_var = r_Edw_spec this model_var \<longleftrightarrow> R \<noteq> 10 \<or> D = 0"
  proof (cases "R = 10")
    case True
    have "r_Edw_get this model_var = r_Edw_spec this model_var \<longleftrightarrow> F * D / tanh 1 = 0"
    proof
      assume "r_Edw_get this model_var = r_Edw_spec this model_var"
      then have "d_r (r_Edw_get this model_var) = d_r (r_Edw_spec this model_var)"
        by simp
      then show "F * D / tanh 1 = 0"
        using True by (simp add: edw spec)
    next
      assume "F * D / tanh 1 = 0"
      then show "r_Edw_get this model_var = r_Edw_spec this model_var"
        using True by (simp add: edw spec)
    qed
    with True zero show ?thesis by simp
  next
    case False
    then show ?thesis by (simp add: edw spec)
  qed
  have imp: "r (r_Bsl_get this model_var) \<noteq> 10 \<longrightarrow> r_Edw_get this model_var = r_Edw_spec this model_var"
    using eq r_bsl by simp
  have closed: "r_Edw_get this model_var =
     model_var\<lparr>r := tanh (min (ScalarVar_i this 0 * inv_Shat model_var * inv_k2_d2 model_var) 10) / tanh 1,
               d_r := (1 - (tanh (tanh (min (ScalarVar_i this 0 * inv_Shat model_var * inv_k2_d2 model_var) 10) / tanh 1)) ^ 2)
                      * ((Shat model_var - ScalarVar_i this 0 * d_Shat model_var)
                           * inv_Shat model_var * inv_Shat model_var * inv_k2_d2 model_var)
                      / tanh 1\<rparr>"
    using edw by (simp only: R_def D_def F_def)
  have iff: "r_Edw_get this model_var = r_Edw_spec this model_var
        \<longleftrightarrow> r (r_Bsl_get this model_var) \<noteq> 10
            \<or> (Shat model_var - ScalarVar_i this 0 * d_Shat model_var)
                  * inv_Shat model_var * inv_Shat model_var * inv_k2_d2 model_var = 0"
    using eq by (simp only: r_bsl D_def)
  from closed imp iff show ?thesis by blast
qed

theorem C2_r_Edw_transform_witness:
  "r (r_Bsl_get example_this (example_model_var\<lparr>Shat := 1, inv_Shat := 1, inv_k2_d2 := 1\<rparr>)) = 1
   \<and> r_Edw_get example_this (example_model_var\<lparr>Shat := 1, inv_Shat := 1, inv_k2_d2 := 1\<rparr>)
     = r_Edw_spec example_this (example_model_var\<lparr>Shat := 1, inv_Shat := 1, inv_k2_d2 := 1\<rparr>)
   \<and> r (r_Bsl_get (example_this\<lparr>ScalarVar_i := (\<lambda>k. 20)\<rparr>)
          (example_model_var\<lparr>Shat := 1, d_Shat := 1 / 20, inv_Shat := 1, inv_k2_d2 := 1\<rparr>)) = 10
   \<and> r_Edw_get (example_this\<lparr>ScalarVar_i := (\<lambda>k. 20)\<rparr>)
          (example_model_var\<lparr>Shat := 1, d_Shat := 1 / 20, inv_Shat := 1, inv_k2_d2 := 1\<rparr>)
     = r_Edw_spec (example_this\<lparr>ScalarVar_i := (\<lambda>k. 20)\<rparr>)
          (example_model_var\<lparr>Shat := 1, d_Shat := 1 / 20, inv_Shat := 1, inv_k2_d2 := 1\<rparr>)"
proof -
  have one: "r (r_Bsl_get example_this (example_model_var\<lparr>Shat := 1, inv_Shat := 1, inv_k2_d2 := 1\<rparr>)) = 1"
    by (simp add: r_Bsl_get_def Let_def example_this_def)
  then have ne: "r (r_Bsl_get example_this (example_model_var\<lparr>Shat := 1, inv_Shat := 1, inv_k2_d2 := 1\<rparr>)) \<noteq> 10"
    by simp
  have a: "r_Edw_get example_this (example_model_var\<lparr>Shat := 1, inv_Shat := 1, inv_k2_d2 := 1\<rparr>)
     = r_Edw_spec example_this (example_model_var\<lparr>Shat := 1, inv_Shat := 1, inv_k2_d2 := 1\<rparr>)"
    using C2_r_Edw_transform [where this = example_this
        and model_var = "example_model_var\<lparr>Shat := 1, inv_Shat := 1, inv_k2_d2 := 1\<rparr>"] ne
    by blast
  have ten: "r (r_Bsl_get (example_this\<lparr>ScalarVar_i := (\<lambda>k. 20)\<rparr>)
          (example_model_var\<lparr>Shat := 1, d_Shat := 1 / 20, inv_Shat := 1, inv_k2_d2 := 1\<rparr>)) = 10"
    by (simp add: r_Bsl_get_def Let_def)
  have z: "(Shat (example_model_var\<lparr>Shat := 1, d_Shat := 1 / 20, inv_Shat := 1, inv_k2_d2 := 1\<rparr>)
            - ScalarVar_i (example_this\<lparr>ScalarVar_i := (\<lambda>k. 20)\<rparr>) 0
              * d_Shat (example_model_var\<lparr>Shat := 1, d_Shat := 1 / 20, inv_Shat := 1, inv_k2_d2 := 1\<rparr>))
           * inv_Shat (example_model_var\<lparr>Shat := 1, d_Shat := 1 / 20, inv_Shat := 1, inv_k2_d2 := 1\<rparr>)
           * inv_Shat (example_model_var\<lparr>Shat := 1, d_Shat := 1 / 20, inv_Shat := 1, inv_k2_d2 := 1\<rparr>)
           * inv_k2_d2 (example_model_var\<lparr>Shat := 1, d_Shat := 1 / 20, inv_Shat := 1, inv_k2_d2 := 1\<rparr>) = 0"
    by simp
  have b: "r_Edw_get (example_this\<lparr>ScalarVar_i := (\<lambda>k. 20)\<rparr>)
          (example_model_var\<lparr>Shat := 1, d_Shat := 1 / 20, inv_Shat := 1, inv_k2_d2 := 1\<rparr>)
     = r_Edw_spec (example_this\<lparr>ScalarVar_i := (\<lambda>k. 20)\<rparr>)
          (example_model_var\<lparr>Shat := 1, d_Shat := 1 / 20, inv_Shat := 1, inv_k2_d2 := 1\<rparr>)"
    using C2_r_Edw_transform [where this = "example_this\<lparr>ScalarVar_i := (\<lambda>k. 20)\<rparr>"
        and model_var = "example_model_var\<lparr>Shat := 1, d_Shat := 1 / 20, inv_Shat := 1, inv_k2_d2 := 1\<rparr>"] z
    by blast
  from one a ten b show ?thesis by blast
qed

text \<open>
  C2 as stated fails where the min cuts: with nue = 20, inv\_Shat = inv\_k2\_d2 = Shat = 1
  and d\_Shat = 0 the Baseline d\_r is 0, and so is the d\_r of the specification's wording,
  while \<open>r_Edw::get\<close> leaves a d\_r above 0.
\<close>

theorem C2_r_Edw_counterexample:
  "d_r (r_Edw_spec (example_this\<lparr>ScalarVar_i := (\<lambda>k. 20)\<rparr>)
          (example_model_var\<lparr>Shat := 1, inv_Shat := 1, inv_k2_d2 := 1\<rparr>)) = 0
   \<and> 0 < d_r (r_Edw_get (example_this\<lparr>ScalarVar_i := (\<lambda>k. 20)\<rparr>)
          (example_model_var\<lparr>Shat := 1, inv_Shat := 1, inv_k2_d2 := 1\<rparr>))
   \<and> r_Edw_get (example_this\<lparr>ScalarVar_i := (\<lambda>k. 20)\<rparr>)
          (example_model_var\<lparr>Shat := 1, inv_Shat := 1, inv_k2_d2 := 1\<rparr>)
     \<noteq> r_Edw_spec (example_this\<lparr>ScalarVar_i := (\<lambda>k. 20)\<rparr>)
          (example_model_var\<lparr>Shat := 1, inv_Shat := 1, inv_k2_d2 := 1\<rparr>)"
proof -
  have a: "d_r (r_Edw_spec (example_this\<lparr>ScalarVar_i := (\<lambda>k. 20)\<rparr>)
          (example_model_var\<lparr>Shat := 1, inv_Shat := 1, inv_k2_d2 := 1\<rparr>)) = 0"
    by (simp add: r_Edw_spec_def r_Bsl_get_def Let_def example_defs)
  have b: "0 < d_r (r_Edw_get (example_this\<lparr>ScalarVar_i := (\<lambda>k. 20)\<rparr>)
          (example_model_var\<lparr>Shat := 1, inv_Shat := 1, inv_k2_d2 := 1\<rparr>))"
    using tanh_sq_less_1 [of "tanh 10 / tanh 1"]
    by (simp add: r_Edw_get_def Let_def example_defs)
  from a b show ?thesis by auto
qed

text \<open>
  C3 (as the code has it). With a turbulence scalar above 0, \<open>ModVort_Neg::get\<close> is
  \<open>ModVort_Bsl::get\<close> and \<open>SourceTerms_Neg::get\<close> is \<open>SourceTerms_Bsl::get\<close>, so a call with
  the two Negative classes returns the object and leaves the local (Shat, d\_Shat and
  every other field) exactly as the call with the two Baseline classes does.
\<close>

theorem C3_Neg_delegates_when_positive:
  assumes "0 < ScalarVar_i this 0"
  shows "ModVort_Neg_get this model_var = ModVort_Bsl_get this model_var
       \<and> SourceTerms_Neg_get this model_var cells = SourceTerms_Bsl_get this model_var cells
       \<and> ComputeResidual (v\<lparr>ModVort_of := ModVort_Neg, SourceTerms_of := SourceTerms_Neg\<rparr>) (this, model_var)
         = ComputeResidual (v\<lparr>ModVort_of := ModVort_Bsl, SourceTerms_of := SourceTerms_Bsl\<rparr>) (this, model_var)"
proof -
  have p: "0 < ScalarVar_i (ComputeResidual_reset this) 0"
    using assms by (simp add: reset_keeps)
  have mv: "ModVort_Neg_get t = ModVort_Bsl_get t" if "0 < ScalarVar_i t 0" for t
    using that by (simp add: fun_eq_iff ModVort_Neg_get_def)
  have st: "SourceTerms_Neg_get t = SourceTerms_Bsl_get t" if "0 < ScalarVar_i t 0" for t
    using that by (simp add: fun_eq_iff SourceTerms_Neg_get_def)
  have aux: "ComputeResidual_aux (v\<lparr>ModVort_of := ModVort_Neg, SourceTerms_of := SourceTerms_Neg\<rparr>)
               (ComputeResidual_reset this)
           = ComputeResidual_aux (v\<lparr>ModVort_of := ModVort_Bsl, SourceTerms_of := SourceTerms_Bsl\<rparr>)
               (ComputeResidual_reset this)"
    by (simp add: fun_eq_iff ComputeResidual_aux_def mv [OF p])
  have src: "ComputeResidual_sources (v\<lparr>ModVort_of := ModVort_Neg, SourceTerms_of := SourceTerms_Neg\<rparr>)
               (ComputeResidual_reset this)
           = ComputeResidual_sources (v\<lparr>ModVort_of := ModVort_Bsl, SourceTerms_of := SourceTerms_Bsl\<rparr>)
               (ComputeResidual_reset this)"
    by (simp add: fun_eq_iff ComputeResidual_sources_def st [OF p])
  show ?thesis
    by (simp add: mv [OF assms] st [OF assms] ComputeResidual_def aux src Let_def)
qed

theorem C3_Neg_delegates_witness:
  "0 < ScalarVar_i example_this 0
   \<and> ModVort_Neg_get example_this example_model_var = ModVort_Bsl_get example_this example_model_var
   \<and> ComputeResidual (variant_Bsl\<lparr>ModVort_of := ModVort_Neg, SourceTerms_of := SourceTerms_Neg\<rparr>)
        (example_this, example_model_var)
     = ComputeResidual (variant_Bsl\<lparr>ModVort_of := ModVort_Bsl, SourceTerms_of := SourceTerms_Bsl\<rparr>)
        (example_this, example_model_var)"
proof -
  have p: "0 < ScalarVar_i example_this 0"
    by (simp add: example_this_def)
  from C3_Neg_delegates_when_positive [OF p, where model_var = example_model_var and v = variant_Bsl] p
  show ?thesis by blast
qed

text \<open>
  C3 as stated fails at a turbulence scalar of 0, which the guards \<open>nue > 0.0\<close> of lines
  364 and 463 send to the Negative branches: at the example point with the scalar set
  to 0, the Baseline classes leave Shat = 5 and return the Jacobian 271/200, the Negative
  classes leave Shat as it was on entry (0) and return the Jacobian -271/1000.
\<close>

theorem C3_Neg_at_zero_counterexample:
  "0 \<le> ScalarVar_i (example_this\<lparr>ScalarVar_i := (\<lambda>k. 0)\<rparr>) 0
   \<and> Shat (snd (ComputeResidual variant_Bsl (example_this\<lparr>ScalarVar_i := (\<lambda>k. 0)\<rparr>, example_model_var))) = 5
   \<and> Shat (snd (ComputeResidual variant_Neg (example_this\<lparr>ScalarVar_i := (\<lambda>k. 0)\<rparr>, example_model_var))) = 0
   \<and> Jacobian_i (fst (ComputeResidual variant_Bsl (example_this\<lparr>ScalarVar_i := (\<lambda>k. 0)\<rparr>, example_model_var)))
       = 271 / 200
   \<and> Jacobian_i (fst (ComputeResidual variant_Neg (example_this\<lparr>ScalarVar_i := (\<lambda>k. 0)\<rparr>, example_model_var)))
       = - 271 / 1000"
  by (simp add: call_defs strategy_defs example_defs Let_def upt_rec)




text \<open>
  C5. With a negative turbulence scalar, \<open>SourceTerms_Neg::get\<close> sets Production to
  cb1 (1 - ct3) S nue, Destruction to cw1 nue nue / dist\_i\_2 and CrossProduction to
  cb2\_sigma norm2\_Grad, and moves the Jacobian by cb1 (1 - ct3) S - 2 cw1 nue / dist\_i\_2.
  Production is the scalar times a factor that does not contain it, and nothing changes
  when ft2, fv1, fv2 and Shat are given other values. In a call that passes the guard,
  the S is the one line 161 set and dist\_i\_2 is the square of the wall distance.
\<close>

theorem C5_negative_source_terms:
  assumes "ScalarVar_i this 0 < 0"
  shows "SourceTerms_Neg_get this model_var (P0, D0, C0, J0) =
           (cb1 model_var * (1 - ct3 model_var) * S model_var * ScalarVar_i this 0,
            cw1 model_var * (ScalarVar_i this 0) ^ 2 / dist_i_2 model_var,
            cb2_sigma model_var * norm2_Grad model_var,
            J0 + cb1 model_var * (1 - ct3 model_var) * S model_var
               - 2 * cw1 model_var * ScalarVar_i this 0 / dist_i_2 model_var)
       \<and> SourceTerms_Neg_get this (model_var\<lparr>ft2 := a1, fv1 := a2, fv2 := a3, Shat := a4\<rparr>)
             (P0, D0, C0, J0)
           = SourceTerms_Neg_get this model_var (P0, D0, C0, J0)
       \<and> (SourceTerms_of v = SourceTerms_Neg \<and> dist_i this > 1 / 10 ^ 10 \<longrightarrow>
            Production (fst (ComputeResidual v (this, model_var)))
              = cb1 model_var * (1 - ct3 model_var) * S (snd (ComputeResidual v (this, model_var)))
                * ScalarVar_i this 0
            \<and> Destruction (fst (ComputeResidual v (this, model_var)))
              = cw1 model_var * (ScalarVar_i this 0) ^ 2 / (dist_i this * dist_i this))"
proof -
  have strategy: "SourceTerms_Neg_get this x (P0, D0, C0, J0) =
           (cb1 x * (1 - ct3 x) * S x * ScalarVar_i this 0,
            cw1 x * (ScalarVar_i this 0) ^ 2 / dist_i_2 x,
            cb2_sigma x * norm2_Grad x,
            J0 + cb1 x * (1 - ct3 x) * S x - 2 * cw1 x * ScalarVar_i this 0 / dist_i_2 x)" for x
    using assms
    by (simp add: SourceTerms_Neg_get_def SourceTerms_Neg_ComputeProduction_def
        SourceTerms_Neg_ComputeDestruction_def SourceTerms_Neg_ComputeCrossProduction_def
        SourceTerms_Bsl_ComputeCrossProduction_def Let_def power2_eq_square)
  have same: "SourceTerms_Neg_get this (model_var\<lparr>ft2 := a1, fv1 := a2, fv2 := a3, Shat := a4\<rparr>)
             (P0, D0, C0, J0)
           = SourceTerms_Neg_get this model_var (P0, D0, C0, J0)"
    by (simp add: strategy)
  show ?thesis
    using strategy [of model_var] same Neg_call_value [OF _ assms, of v model_var]
    by blast
qed

theorem C5_negative_source_terms_witness:
  "ScalarVar_i (example_this\<lparr>ScalarVar_i := (\<lambda>k. - 1)\<rparr>) 0 < 0
   \<and> SourceTerms_Neg_get (example_this\<lparr>ScalarVar_i := (\<lambda>k. - 1)\<rparr>)
        (example_model_var\<lparr>S := 5, dist_i_2 := 1, norm2_Grad := 2\<rparr>) (0, 0, 0, 0)
      = (271 / 2000, 3239 / 1000, 933 / 500, 2537 / 400)
   \<and> Destruction (fst (ComputeResidual variant_Neg
        (example_this\<lparr>ScalarVar_i := (\<lambda>k. - 1)\<rparr>, example_model_var))) = 3239 / 1000"
proof -
  have n: "ScalarVar_i (example_this\<lparr>ScalarVar_i := (\<lambda>k. - 1)\<rparr>) 0 < 0"
    by simp
  have g: "SourceTerms_of variant_Neg = SourceTerms_Neg
           \<and> dist_i (example_this\<lparr>ScalarVar_i := (\<lambda>k. - 1)\<rparr>) > 1 / 10 ^ 10"
    by (simp add: variant_Neg_def example_this_def)
  have a: "SourceTerms_Neg_get (example_this\<lparr>ScalarVar_i := (\<lambda>k. - 1)\<rparr>)
        (example_model_var\<lparr>S := 5, dist_i_2 := 1, norm2_Grad := 2\<rparr>) (0, 0, 0, 0)
      = (271 / 2000, 3239 / 1000, 933 / 500, 2537 / 400)"
    using C5_negative_source_terms [OF n, where model_var = "example_model_var\<lparr>S := 5, dist_i_2 := 1, norm2_Grad := 2\<rparr>"
        and ?P0.0 = 0 and ?D0.0 = 0 and ?C0.0 = 0 and ?J0.0 = 0]
    by (simp add: example_model_var_def)
  have b: "Destruction (fst (ComputeResidual variant_Neg
        (example_this\<lparr>ScalarVar_i := (\<lambda>k. - 1)\<rparr>, example_model_var))) = 3239 / 1000"
    using C5_negative_source_terms [OF n, where model_var = example_model_var and v = variant_Neg] g
    by (simp add: example_model_var_def example_this_def)
  from n a b show ?thesis by blast
qed

text \<open>
  C6. \<open>r_Bsl::get\<close> never leaves r above 10, and whenever the r it leaves is 10, whether
  the product was cut to 10 or was 10 already, the d\_r it leaves is 0.
\<close>

theorem C6_r_Bsl_clamped:
  "r (r_Bsl_get this model_var) \<le> 10
   \<and> (r (r_Bsl_get this model_var) = 10 \<longrightarrow> d_r (r_Bsl_get this model_var) = 0)"
  by (auto simp add: r_Bsl_get_def Let_def min_def)

theorem C6_r_Bsl_clamped_witness:
  "r (r_Bsl_get (example_this\<lparr>ScalarVar_i := (\<lambda>k. 20)\<rparr>)
        (example_model_var\<lparr>Shat := 1, inv_Shat := 1, inv_k2_d2 := 1\<rparr>)) = 10
   \<and> d_r (r_Bsl_get (example_this\<lparr>ScalarVar_i := (\<lambda>k. 20)\<rparr>)
        (example_model_var\<lparr>Shat := 1, inv_Shat := 1, inv_k2_d2 := 1\<rparr>)) = 0"
  using C6_r_Bsl_clamped [of "example_this\<lparr>ScalarVar_i := (\<lambda>k. 20)\<rparr>"
      "example_model_var\<lparr>Shat := 1, inv_Shat := 1, inv_k2_d2 := 1\<rparr>"]
  by (simp add: r_Bsl_get_def Let_def)

text \<open>
  C7. The cross-production step of both source-term classes sets CrossProduction to
  cb2\_sigma norm2\_Grad and hands the Jacobian back as it received it. So whichever class
  and branch runs, the CrossProduction that \<open>get\<close> returns is that product and the
  Jacobian it returns is the one the production and destruction steps left; and the
  CrossProduction of a call that passes the guard is cb2\_sigma times the sum of the
  squares of the gradient components.
\<close>

theorem C7_cross_production_no_jacobian:
  "SourceTerms_Bsl_ComputeCrossProduction nue model_var (C0, J0)
     = (cb2_sigma model_var * norm2_Grad model_var, J0)
   \<and> SourceTerms_Neg_ComputeCrossProduction nue model_var (C0, J0)
     = (cb2_sigma model_var * norm2_Grad model_var, J0)
   \<and> fst (snd (snd (SourceTerms_get c this model_var (P0, D0, C0, J0))))
     = cb2_sigma model_var * norm2_Grad model_var
   \<and> snd (snd (snd (SourceTerms_Bsl_get this model_var (P0, D0, C0, J0))))
     = snd (SourceTerms_Bsl_ComputeDestruction (ScalarVar_i this 0) model_var
              (D0, snd (SourceTerms_Bsl_ComputeProduction (ScalarVar_i this 0) model_var (P0, J0))))
   \<and> snd (snd (snd (SourceTerms_Neg_get this model_var (P0, D0, C0, J0))))
     = (if 0 < ScalarVar_i this 0
        then snd (SourceTerms_Bsl_ComputeDestruction (ScalarVar_i this 0) model_var
                    (D0, snd (SourceTerms_Bsl_ComputeProduction (ScalarVar_i this 0) model_var (P0, J0))))
        else snd (SourceTerms_Neg_ComputeDestruction (ScalarVar_i this 0) model_var
                    (D0, snd (SourceTerms_Neg_ComputeProduction (ScalarVar_i this 0) model_var (P0, J0)))))
   \<and> CrossProduction (fst (ComputeResidual v (this, model_var)))
     = (if dist_i this > 1 / 10 ^ 10
        then cb2_sigma model_var
             * (\<Sum>iDim\<leftarrow>[0..<nDim this]. ScalarVar_Grad_i this 0 iDim * ScalarVar_Grad_i this 0 iDim)
        else 0)"
proof -
  have step: "SourceTerms_Bsl_ComputeCrossProduction nue model_var (C0, J0)
                = (cb2_sigma model_var * norm2_Grad model_var, J0)
              \<and> SourceTerms_Neg_ComputeCrossProduction nue model_var (C0, J0)
                = (cb2_sigma model_var * norm2_Grad model_var, J0)"
    by (simp add: SourceTerms_Bsl_ComputeCrossProduction_def SourceTerms_Neg_ComputeCrossProduction_def)
  have cross: "fst (snd (snd (SourceTerms_get c this model_var (P0, D0, C0, J0))))
                = cb2_sigma model_var * norm2_Grad model_var"
    by (cases c)
       (simp_all add: SourceTerms_Bsl_ComputeCrossProduction_def
          SourceTerms_Neg_ComputeCrossProduction_def SourceTerms_Bsl_get_def
          SourceTerms_Neg_get_def Let_def split: prod.splits)
  have bsl: "snd (snd (snd (SourceTerms_Bsl_get this model_var (P0, D0, C0, J0))))
     = snd (SourceTerms_Bsl_ComputeDestruction (ScalarVar_i this 0) model_var
              (D0, snd (SourceTerms_Bsl_ComputeProduction (ScalarVar_i this 0) model_var (P0, J0))))"
    by (simp add: SourceTerms_Bsl_get_def SourceTerms_Bsl_ComputeCrossProduction_def Let_def
        split: prod.splits)
  have neg: "snd (snd (snd (SourceTerms_Neg_get this model_var (P0, D0, C0, J0))))
     = (if 0 < ScalarVar_i this 0
        then snd (SourceTerms_Bsl_ComputeDestruction (ScalarVar_i this 0) model_var
                    (D0, snd (SourceTerms_Bsl_ComputeProduction (ScalarVar_i this 0) model_var (P0, J0))))
        else snd (SourceTerms_Neg_ComputeDestruction (ScalarVar_i this 0) model_var
                    (D0, snd (SourceTerms_Neg_ComputeProduction (ScalarVar_i this 0) model_var (P0, J0)))))"
    by (simp add: SourceTerms_Neg_get_def bsl SourceTerms_Neg_ComputeCrossProduction_def
        SourceTerms_Bsl_ComputeCrossProduction_def Let_def split: prod.splits)
  show ?thesis
    using step cross bsl neg CrossProduction_value [of v this model_var]
    by (simp only: simp_thms)
qed

text \<open>
  C8. When the guard passes, Production, Destruction, CrossProduction and the Jacobian
  accumulated from 0 are the four cells \<open>SourceTerms_class::get\<close> returns on the local as
  the call leaves it, the returned Residual is (Production - Destruction +
  CrossProduction + AddSourceTerm) times the volume with AddSourceTerm 0, and the
  returned Jacobian is the accumulated one times the volume. So a call with volume c V
  returns c times the Residual and c times the Jacobian of the call with volume V,
  everything else equal.
\<close>

theorem C8_linear_in_volume:
  "Residual (fst (ComputeResidual v (this, model_var)))
     = (Production (fst (ComputeResidual v (this, model_var)))
        - Destruction (fst (ComputeResidual v (this, model_var)))
        + CrossProduction (fst (ComputeResidual v (this, model_var)))
        + AddSourceTerm (fst (ComputeResidual v (this, model_var)))) * Volume this
   \<and> Residual (fst (ComputeResidual v (this\<lparr>Volume := c * V\<rparr>, model_var)))
     = c * Residual (fst (ComputeResidual v (this\<lparr>Volume := V\<rparr>, model_var)))
   \<and> Jacobian_i (fst (ComputeResidual v (this\<lparr>Volume := c * V\<rparr>, model_var)))
     = c * Jacobian_i (fst (ComputeResidual v (this\<lparr>Volume := V\<rparr>, model_var)))
   \<and> (dist_i this > 1 / 10 ^ 10 \<longrightarrow>
        (case SourceTerms_get (SourceTerms_of v) (ComputeResidual_reset this)
                (snd (ComputeResidual v (this, model_var))) (0, 0, 0, 0) of
           (P, D, C, J) \<Rightarrow>
             Production (fst (ComputeResidual v (this, model_var))) = P
           \<and> Destruction (fst (ComputeResidual v (this, model_var))) = D
           \<and> CrossProduction (fst (ComputeResidual v (this, model_var))) = C
           \<and> AddSourceTerm (fst (ComputeResidual v (this, model_var))) = 0
           \<and> Residual (fst (ComputeResidual v (this, model_var))) = (P - D + C + 0) * Volume this
           \<and> Jacobian_i (fst (ComputeResidual v (this, model_var))) = J * Volume this))"
  using ComputeResidual_Volume_unit [of v "c * V" this model_var]
        ComputeResidual_Volume_unit [of v V this model_var]
        ComputeResidual_Residual [of v this model_var]
        call_cells [of this v model_var]
  by simp

theorem C8_linear_in_volume_witness:
  "1 / 10 ^ 10 < dist_i (example_this\<lparr>ScalarVar_i := (\<lambda>k. 0)\<rparr>)
   \<and> SourceTerms_get (SourceTerms_of variant_Bsl) (ComputeResidual_reset (example_this\<lparr>ScalarVar_i := (\<lambda>k. 0)\<rparr>))
        (snd (ComputeResidual variant_Bsl (example_this\<lparr>ScalarVar_i := (\<lambda>k. 0)\<rparr>, example_model_var)))
        (0, 0, 0, 0) = (0, 0, 933 / 500, 271 / 400)
   \<and> Residual (fst (ComputeResidual variant_Bsl (example_this\<lparr>ScalarVar_i := (\<lambda>k. 0)\<rparr>, example_model_var)))
       = 933 / 250
   \<and> Jacobian_i (fst (ComputeResidual variant_Bsl (example_this\<lparr>ScalarVar_i := (\<lambda>k. 0)\<rparr>, example_model_var)))
       = 271 / 200
   \<and> Residual (fst (ComputeResidual variant_Bsl
         (example_this\<lparr>ScalarVar_i := (\<lambda>k. 0), Volume := 3 * 2\<rparr>, example_model_var))) = 3 * (933 / 250)
   \<and> Jacobian_i (fst (ComputeResidual variant_Bsl
         (example_this\<lparr>ScalarVar_i := (\<lambda>k. 0), Volume := 3 * 2\<rparr>, example_model_var))) = 3 * (271 / 200)"
proof -
  define t where "t = example_this\<lparr>ScalarVar_i := (\<lambda>k. 0)\<rparr>"
  have d: "1 / 10 ^ 10 < dist_i t" and vol: "Volume t = 2" and same: "t\<lparr>Volume := 2\<rparr> = t"
    by (simp_all add: t_def example_this_def)
  have cells: "SourceTerms_get (SourceTerms_of variant_Bsl) (ComputeResidual_reset t)
        (snd (ComputeResidual variant_Bsl (t, example_model_var))) (0, 0, 0, 0)
      = (0, 0, 933 / 500, 271 / 400)"
    by (simp add: t_def call_defs strategy_defs example_defs Let_def upt_rec)
  note inst = C8_linear_in_volume [where v = variant_Bsl and this = t and model_var = example_model_var
      and c = 3 and V = 2]
  from inst d have "case SourceTerms_get (SourceTerms_of variant_Bsl) (ComputeResidual_reset t)
                (snd (ComputeResidual variant_Bsl (t, example_model_var))) (0, 0, 0, 0) of
           (P, D, C, J) \<Rightarrow>
             Residual (fst (ComputeResidual variant_Bsl (t, example_model_var))) = (P - D + C + 0) * Volume t
           \<and> Jacobian_i (fst (ComputeResidual variant_Bsl (t, example_model_var))) = J * Volume t"
    by (simp split: prod.splits)
  then have vals: "Residual (fst (ComputeResidual variant_Bsl (t, example_model_var))) = 933 / 250"
      "Jacobian_i (fst (ComputeResidual variant_Bsl (t, example_model_var))) = 271 / 200"
    by (simp_all add: cells vol)
  from inst have scale:
      "Residual (fst (ComputeResidual variant_Bsl (t\<lparr>Volume := 3 * 2\<rparr>, example_model_var)))
         = 3 * Residual (fst (ComputeResidual variant_Bsl (t\<lparr>Volume := 2\<rparr>, example_model_var)))"
      "Jacobian_i (fst (ComputeResidual variant_Bsl (t\<lparr>Volume := 3 * 2\<rparr>, example_model_var)))
         = 3 * Jacobian_i (fst (ComputeResidual variant_Bsl (t\<lparr>Volume := 2\<rparr>, example_model_var)))"
    by blast+
  show ?thesis
    using d cells vals scale by (simp only: same t_def [symmetric])
qed

text \<open>
  C9. With \<open>ModVort_Neg\<close>, \<open>SourceTerms_Neg\<close> and a turbulence scalar not above 0, the object
  the call returns (Production, Destruction, CrossProduction, Residual and Jacobian
  among its members) is the same whatever Shat and d\_Shat hold on entry.
\<close>

theorem C9_Shat_not_observed:
  assumes "ModVort_of v = ModVort_Neg" and "SourceTerms_of v = SourceTerms_Neg"
      and "ScalarVar_i this 0 \<le> 0"
  shows "fst (ComputeResidual v (this, model_var\<lparr>Shat := a, d_Shat := b\<rparr>))
           = fst (ComputeResidual v (this, model_var))"
proof -
  have n: "\<not> 0 < ScalarVar_i this 0" using assms(3) by simp
  show ?thesis
    using ComputeResidual_Neg_clean [OF assms(1,2) n, of "model_var\<lparr>Shat := a, d_Shat := b\<rparr>"]
          ComputeResidual_Neg_clean [OF assms(1,2) n, of model_var]
    by (simp only: Shat_frame)
qed

theorem C9_Shat_not_observed_witness:
  "ScalarVar_i (example_this\<lparr>ScalarVar_i := (\<lambda>k. - 1)\<rparr>) 0 \<le> 0
   \<and> fst (ComputeResidual variant_Neg
            (example_this\<lparr>ScalarVar_i := (\<lambda>k. - 1)\<rparr>, example_model_var\<lparr>Shat := 3, d_Shat := 4\<rparr>))
     = fst (ComputeResidual variant_Neg (example_this\<lparr>ScalarVar_i := (\<lambda>k. - 1)\<rparr>, example_model_var))"
proof -
  have m: "ModVort_of variant_Neg = ModVort_Neg" and s: "SourceTerms_of variant_Neg = SourceTerms_Neg"
    by (simp_all add: variant_Neg_def)
  have n: "ScalarVar_i (example_this\<lparr>ScalarVar_i := (\<lambda>k. - 1)\<rparr>) 0 \<le> 0"
    by simp
  from C9_Shat_not_observed [OF m s n, where model_var = example_model_var and a = 3 and b = 4] n
  show ?thesis by blast
qed

text \<open>
  C10. Both strain-rate classes leave a non-negative Omega: \<open>Omega_Bsl\<close> the square root
  of the sum of the squares of the three vorticity components, \<open>Omega_Edw\<close> the square
  root of max(Sbar, 0). No later statement but the rotational correction assigns Omega,
  so without the rotating-frame flag the Omega a call leaves is non-negative, and with
  the flag there are points where it is negative.
\<close>

theorem C10_Omega_nonnegative:
  "Omega (Omega_Bsl_get this model_var)
     = sqrt (Vorticity_i this 0 * Vorticity_i this 0 + Vorticity_i this 1 * Vorticity_i this 1
             + Vorticity_i this 2 * Vorticity_i this 2)
   \<and> 0 \<le> Omega (Omega_Bsl_get this model_var)
   \<and> Omega (Omega_Edw_get this model_var) = sqrt (max (Omega_Edw_Sbar this) 0)
   \<and> 0 \<le> Omega (Omega_Edw_get this model_var)
   \<and> (\<not> rotating_frame this \<longrightarrow> 0 \<le> Omega (snd (ComputeResidual v (this, model_var))))
   \<and> (\<exists>t m. rotating_frame t \<and> Omega (snd (ComputeResidual v (t, m))) < 0)"
proof -
  have a: "\<not> rotating_frame this \<Longrightarrow> 0 \<le> Omega (snd (ComputeResidual v (this, model_var)))"
    by (simp add: Omega_final rotational_correction_def ComputeResidual_reset_def Omega_get_nonneg)
  have b: "\<exists>t m. rotating_frame t \<and> Omega (snd (ComputeResidual v (t, m))) < 0"
    using Omega_negative_example [of v]
    by (intro exI [of _ "example_this\<lparr>rotating_frame := True, PrimVar_Grad_i := (\<lambda>k iDim. 1)\<rparr>"]
              exI [of _ example_model_var]) simp
  show ?thesis
    using a b by (simp add: Omega_Bsl_get_def Omega_Edw_get_def)
qed

theorem C10_Omega_nonnegative_witness:
  "rotating_frame example_this = False
   \<and> Omega (Omega_Bsl_get example_this example_model_var) = 5
   \<and> 0 \<le> Omega (snd (ComputeResidual variant_Bsl (example_this, example_model_var)))"
proof -
  have f: "\<not> rotating_frame example_this"
    by (simp add: example_this_def)
  have five: "Omega (Omega_Bsl_get example_this example_model_var) = 5"
    by (simp add: Omega_Bsl_get_def example_this_def)
  from C10_Omega_nonnegative [where this = example_this and model_var = example_model_var and v = variant_Bsl] f five
  show ?thesis by blast
qed

end
